theory Spec2Isabelle
  imports Complex_Main "HOL-Library.List_Lexorder"
begin

section \<open>Python values used by the currency calibrator\<close>

subsection \<open>Strings\<close>

text \<open>
  A Python \<open>str\<close> is a sequence of Unicode code points, so a string is a list of
  code points (natural numbers), not a list of bytes. With the lexicographic order on
  lists, \<open><\<close> on \<open>pystr\<close> is Python's string comparison. \<open>cps\<close> embeds an
  ASCII literal.
\<close>

type_synonym pystr = "nat list"

definition cps :: "string \<Rightarrow> pystr" where
  "cps s = map of_char s"

text \<open>
  \<open>str.strip\<close>, \<open>str.upper\<close> and \<open>str.isalpha\<close> consult the Unicode character
  database. Its first 256 code points (Basic Latin and Latin-1 Supplement) are written
  out below; the tables for the code points from 256 on are a parameter.
\<close>

record unicode =
  isspace_hi :: "nat \<Rightarrow> bool"
  isalpha_hi :: "nat \<Rightarrow> bool"
  upper_hi :: "nat \<Rightarrow> nat list"

definition latin1_isspace :: "nat \<Rightarrow> bool" where
  "latin1_isspace c = ((9 \<le> c \<and> c \<le> 13) \<or> (28 \<le> c \<and> c \<le> 32) \<or> c = 133 \<or> c = 160)"

definition latin1_isalpha :: "nat \<Rightarrow> bool" where
  "latin1_isalpha c =
     ((65 \<le> c \<and> c \<le> 90) \<or> (97 \<le> c \<and> c \<le> 122) \<or> c = 170 \<or> c = 181 \<or> c = 186
      \<or> (192 \<le> c \<and> c \<le> 214) \<or> (216 \<le> c \<and> c \<le> 246) \<or> (248 \<le> c \<and> c \<le> 255))"

definition latin1_upper :: "nat \<Rightarrow> nat list" where
  "latin1_upper c =
     (if 97 \<le> c \<and> c \<le> 122 then [c - 32]
      else if c = 181 then [924]
      else if c = 223 then [83, 83]
      else if (224 \<le> c \<and> c \<le> 246) \<or> (248 \<le> c \<and> c \<le> 254) then [c - 32]
      else if c = 255 then [376]
      else [c])"

definition cp_isspace :: "unicode \<Rightarrow> nat \<Rightarrow> bool" where
  "cp_isspace u c = (if c < 256 then latin1_isspace c else isspace_hi u c)"

definition cp_isalpha :: "unicode \<Rightarrow> nat \<Rightarrow> bool" where
  "cp_isalpha u c = (if c < 256 then latin1_isalpha c else isalpha_hi u c)"

definition cp_upper :: "unicode \<Rightarrow> nat \<Rightarrow> nat list" where
  "cp_upper u c = (if c < 256 then latin1_upper c else upper_hi u c)"

definition py_strip :: "unicode \<Rightarrow> pystr \<Rightarrow> pystr" where
  "py_strip u s = rev (dropWhile (cp_isspace u) (rev (dropWhile (cp_isspace u) s)))"

definition py_upper :: "unicode \<Rightarrow> pystr \<Rightarrow> pystr" where
  "py_upper u s = concat (map (cp_upper u) s)"

definition py_isalpha :: "unicode \<Rightarrow> pystr \<Rightarrow> bool" where
  "py_isalpha u s = (s \<noteq> [] \<and> list_all (cp_isalpha u) s)"

text \<open>A table that knows no space, no letter and no case mapping above code point 255.\<close>

definition latin1_only :: unicode where
  "latin1_only = \<lparr>isspace_hi = (\<lambda>c. False), isalpha_hi = (\<lambda>c. False), upper_hi = (\<lambda>c. [c])\<rparr>"

subsection \<open>Exceptions\<close>

text \<open>
  Every \<open>raise\<close> of the source is a value. The \<open>ValueError\<close>s carry which message
  the source gives them.
\<close>

datatype vmsg =
    InvalidCurrencyCode pystr
  | HistoryDaysTooSmall
  | NoRateReturned
  | TimeseriesFailed
  | NoHistoricalRates
  | CouldNotConvert
  | InvalidIsoformat

datatype error =
    RequestException
  | ValueError vmsg
  | TypeError
  | AttributeError
  | KeyError
  | OverflowError
  | ZeroDivisionError

subsection \<open>Floats\<close>

text \<open>
  A Python \<open>float\<close> is an IEEE 754 double. Its special values are kept apart, and a
  finite double is the real number it denotes (the two zeros are one value). Every
  arithmetic operation rounds its exact result to the nearest double, to the even
  mantissa on a tie, and overflows to infinity: \<open>round_double\<close>. The doubles around
  \<open>x\<close> are the multiples of \<open>ulp_of x\<close>, which is \<open>2\<close> to the power of the binary
  exponent of \<open>x\<close> less 52, the exponent being at least -1022 (below, the doubles are
  subnormal); a result that rounds to \<open>2 ^ 1024\<close> or beyond is infinite. The finite
  floats of a run are the reals that \<open>round_double\<close> leaves as they are
  (\<open>representable\<close>); \<open>Fin\<close> of any other real is no value of the program.

  \<open>feq\<close> and \<open>fne\<close> are Python's \<open>==\<close> and \<open>!=\<close>, under which NaN differs
  from everything, itself included; \<open>fge\<close> is \<open>>=\<close>. \<open>fadd\<close>, \<open>fsub\<close> and
  \<open>fdiv\<close> are \<open>+\<close>, \<open>-\<close> and \<open>/\<close>; the last raises \<open>ZeroDivisionError\<close> on
  a zero divisor whatever the dividend. \<open>float_of_int\<close> is the conversion of an
  \<open>int\<close>, which rounds in the same way and raises \<open>OverflowError\<close> where the
  rounding would overflow.
\<close>

datatype pyfloat = Fin real | PInf | NInf | NaN

definition round_even :: "real \<Rightarrow> int" where
  "round_even q =
     (let f = \<lfloor>q\<rfloor>; d = q - of_int f
      in if d < 1 / 2 then f else if 1 / 2 < d then f + 1 else if even f then f else f + 1)"

definition ulp_of :: "real \<Rightarrow> real" where
  "ulp_of x = 2 powr of_int (max \<lfloor>log 2 \<bar>x\<bar>\<rfloor> (- 1022) - 52)"

definition round_double :: "real \<Rightarrow> pyfloat" where
  "round_double x =
     (if x = 0 then Fin 0
      else (let r = of_int (round_even (x / ulp_of x)) * ulp_of x
            in if 2 ^ 1024 \<le> r then PInf else if r \<le> - (2 ^ 1024) then NInf else Fin r))"

definition representable :: "real \<Rightarrow> bool" where
  "representable x = (round_double x = Fin x)"

definition feq :: "pyfloat \<Rightarrow> pyfloat \<Rightarrow> bool" where
  "feq x y = (x \<noteq> NaN \<and> y \<noteq> NaN \<and> x = y)"

definition fne :: "pyfloat \<Rightarrow> pyfloat \<Rightarrow> bool" where
  "fne x y = (\<not> feq x y)"

definition is_inf :: "pyfloat \<Rightarrow> bool" where
  "is_inf x = (x = PInf \<or> x = NInf)"

fun fge :: "pyfloat \<Rightarrow> pyfloat \<Rightarrow> bool" where
  "fge NaN y = False"
| "fge x NaN = False"
| "fge PInf y = True"
| "fge x NInf = True"
| "fge (Fin a) (Fin b) = (b \<le> a)"
| "fge (Fin a) PInf = False"
| "fge NInf y = False"

fun fneg :: "pyfloat \<Rightarrow> pyfloat" where
  "fneg (Fin a) = Fin (- a)"
| "fneg PInf = NInf"
| "fneg NInf = PInf"
| "fneg NaN = NaN"

fun fabs :: "pyfloat \<Rightarrow> pyfloat" where
  "fabs (Fin a) = Fin \<bar>a\<bar>"
| "fabs PInf = PInf"
| "fabs NInf = PInf"
| "fabs NaN = NaN"

fun fadd :: "pyfloat \<Rightarrow> pyfloat \<Rightarrow> pyfloat" where
  "fadd (Fin a) (Fin b) = round_double (a + b)"
| "fadd NaN y = NaN"
| "fadd x NaN = NaN"
| "fadd PInf NInf = NaN"
| "fadd NInf PInf = NaN"
| "fadd PInf y = PInf"
| "fadd x PInf = PInf"
| "fadd NInf y = NInf"
| "fadd x NInf = NInf"

definition fsub :: "pyfloat \<Rightarrow> pyfloat \<Rightarrow> pyfloat" where
  "fsub x y = fadd x (fneg y)"

fun fdiv :: "pyfloat \<Rightarrow> pyfloat \<Rightarrow> error + pyfloat" where
  "fdiv x (Fin b) =
     (if b = 0 then Inl ZeroDivisionError
      else Inr (case x of
                  Fin a \<Rightarrow> round_double (a / b)
                | PInf \<Rightarrow> (if 0 < b then PInf else NInf)
                | NInf \<Rightarrow> (if 0 < b then NInf else PInf)
                | NaN \<Rightarrow> NaN))"
| "fdiv (Fin a) PInf = Inr (Fin 0)"
| "fdiv (Fin a) NInf = Inr (Fin 0)"
| "fdiv x y = Inr NaN"

definition float_of_int :: "int \<Rightarrow> error + pyfloat" where
  "float_of_int i =
     (case round_double (of_int i) of
        Fin r \<Rightarrow> Inr (Fin r)
      | _ \<Rightarrow> Inl OverflowError)"

subsection \<open>Decoded JSON\<close>

text \<open>
  What \<open>r.json()\<close> returns. A \<open>dict\<close> is an association list read with
  \<open>map_of\<close>; its keys, as a set, are the first components.
\<close>

datatype json =
    JNull
  | JBool bool
  | JInt int
  | JFloat pyfloat
  | JStr pystr
  | JArr "json list"
  | JObj "(pystr \<times> json) list"

text \<open>
  The library functions of Python that the program calls and that the model does not
  write out: parsing and printing of numbers, and the calendar (a date is its proleptic
  Gregorian ordinal, as \<open>date.toordinal\<close> gives it). \<open>compensated_sum\<close> says which
  of the two algorithms of CPython the builtin \<open>sum\<close> runs on floats.
\<close>

record python =
  unicode_db :: unicode
  compensated_sum :: bool
  float_of_str :: "pystr \<Rightarrow> pyfloat option"
  int_of_str :: "pystr \<Rightarrow> int option"
  format_float :: "nat \<Rightarrow> pyfloat \<Rightarrow> pystr"
  str_of_int :: "int \<Rightarrow> pystr"
  isoformat :: "int \<Rightarrow> pystr"
  fromisoformat_ok :: "pystr \<Rightarrow> bool"

text \<open>
  \<open>float(v)\<close> on a decoded JSON value. An \<open>int\<close> is converted, and raises
  \<open>OverflowError\<close> beyond the range of a double; a string is parsed; \<open>None\<close>,
  lists and dicts raise \<open>TypeError\<close>.
\<close>

fun py_float :: "python \<Rightarrow> json \<Rightarrow> error + pyfloat" where
  "py_float py (JFloat f) = Inr f"
| "py_float py (JInt i) = float_of_int i"
| "py_float py (JBool b) = Inr (Fin (if b then 1 else 0))"
| "py_float py (JStr s) =
     (case float_of_str py s of Some f \<Rightarrow> Inr f | None \<Rightarrow> Inl (ValueError CouldNotConvert))"
| "py_float py JNull = Inl TypeError"
| "py_float py (JArr xs) = Inl TypeError"
| "py_float py (JObj kvs) = Inl TypeError"

text \<open>\<open>k in s\<close> for two strings: \<open>k\<close> occurs in \<open>s\<close> as a substring.\<close>

fun substring :: "pystr \<Rightarrow> pystr \<Rightarrow> bool" where
  "substring k [] = (k = [])"
| "substring k (c # cs) = (take (length k) (c # cs) = k \<or> substring k cs)"

text \<open>\<open>k in v\<close> for a string \<open>k\<close> and a decoded value \<open>v\<close>.\<close>

fun py_in :: "pystr \<Rightarrow> json \<Rightarrow> error + bool" where
  "py_in k (JObj kvs) = Inr (map_of kvs k \<noteq> None)"
| "py_in k (JArr xs) = Inr (List.member xs (JStr k))"
| "py_in k (JStr s) = Inr (substring k s)"
| "py_in k JNull = Inl TypeError"
| "py_in k (JBool b) = Inl TypeError"
| "py_in k (JInt i) = Inl TypeError"
| "py_in k (JFloat f) = Inl TypeError"

text \<open>\<open>v[k]\<close> for a string \<open>k\<close>.\<close>

fun py_getitem :: "json \<Rightarrow> pystr \<Rightarrow> error + json" where
  "py_getitem (JObj kvs) k = (case map_of kvs k of Some v \<Rightarrow> Inr v | None \<Rightarrow> Inl KeyError)"
| "py_getitem v k = Inl TypeError"

subsection \<open>The rate service\<close>

text \<open>
  The two requests the program sends, and what \<open>requests.get\<close>,
  \<open>raise_for_status\<close> and \<open>r.json()\<close> make of the answer: a
  \<open>RequestException\<close> (transport failure, error status, body that is not JSON) or the
  decoded body. Every request sent is appended to a log.
\<close>

datatype request =
    Latest pyfloat pystr pystr
  | Timeseries pystr pystr pystr pystr

datatype http_result = Failed | Body json

record world =
  http :: "request \<Rightarrow> http_result"
  today_at_fetch :: int
  today_at_check :: int

section \<open>Core functions\<close>

text \<open>
  \<^verbatim>\<open>
  def fetch_conversion(amount, base, target):
      if base == target:
          return amount, 1.0
      ...
      r = requests.get(url, params=params, timeout=15)
      r.raise_for_status()
      data = r.json()
      rates = data.get("rates", {})
      if target not in rates:
          raise ValueError(...)
      converted = float(rates[target])
      rate = converted / amount if amount != 0 else float("nan")
      return converted, rate
  \<close>
  \<open>conversion_of\<close> is the part after \<open>data = r.json()\<close>.
\<close>

definition conversion_of :: "python \<Rightarrow> json \<Rightarrow> pyfloat \<Rightarrow> pystr \<Rightarrow> error + pyfloat \<times> pyfloat" where
  "conversion_of py data amount target =
     (case data of
        JObj kvs \<Rightarrow>
          (let rates = (case map_of kvs (cps ''rates'') of Some r \<Rightarrow> r | None \<Rightarrow> JObj [])
           in case py_in target rates of
                Inl e \<Rightarrow> Inl e
              | Inr present \<Rightarrow>
                  if \<not> present then Inl (ValueError NoRateReturned)
                  else (case py_getitem rates target of
                          Inl e \<Rightarrow> Inl e
                        | Inr v \<Rightarrow>
                            (case py_float py v of
                               Inl e \<Rightarrow> Inl e
                             | Inr converted \<Rightarrow>
                                 (case (if fne amount (Fin 0) then fdiv converted amount
                                        else Inr NaN) of
                                    Inl e \<Rightarrow> Inl e
                                  | Inr rate \<Rightarrow> Inr (converted, rate)))))
      | _ \<Rightarrow> Inl AttributeError)"

definition fetch_conversion ::
  "python \<Rightarrow> world \<Rightarrow> request list \<Rightarrow> pyfloat \<Rightarrow> pystr \<Rightarrow> pystr
     \<Rightarrow> (error + pyfloat \<times> pyfloat) \<times> request list" where
  "fetch_conversion py w sent amount base target =
     (if base = target then (Inr (amount, Fin 1), sent)
      else (case http w (Latest amount base target) of
              Failed \<Rightarrow> (Inl RequestException, sent @ [Latest amount base target])
            | Body data \<Rightarrow>
                (conversion_of py data amount target, sent @ [Latest amount base target])))"

text \<open>
  \<^verbatim>\<open>
  def fetch_timeseries(base, target, days=30):
      end = dt.date.today()
      start = end - dt.timedelta(days=days)
      url = f"{API_BASE}/{start.isoformat()}..{end.isoformat()}"
      ...
      r = requests.get(url, params=params, timeout=20)
      r.raise_for_status()
      data = r.json()
      if "rates" not in data:
          raise ValueError(f"Timeseries failed: {data}")
      rates = {}
      for day in sorted(data["rates"].keys()):
          payload = data["rates"][day]
          val = payload.get(target)
          if val is not None:
              rates[day] = float(val)
      if not rates:
          raise ValueError("No historical rates returned.")
      return rates
  \<close>
  \<open>timedelta\<close> takes at most 999999999 days, and a date lies between ordinal 1 and
  ordinal 3652059 (9999-12-31); outside, Python raises \<open>OverflowError\<close>. The
  returned \<open>dict\<close> is an association list in insertion order; \<open>dict_set\<close> is
  \<open>d[k] = v\<close>. \<open>collect_rates\<close> is the loop, over the days still to visit, and
  \<open>series_of\<close> the part after \<open>data = r.json()\<close>.
\<close>

definition start_date :: "int \<Rightarrow> int \<Rightarrow> error + int" where
  "start_date today days =
     (if 999999999 < \<bar>days\<bar> then Inl OverflowError
      else if today - days < 1 \<or> 3652059 < today - days then Inl OverflowError
      else Inr (today - days))"

fun dict_set :: "('k \<times> 'v) list \<Rightarrow> 'k \<Rightarrow> 'v \<Rightarrow> ('k \<times> 'v) list" where
  "dict_set [] k v = [(k, v)]"
| "dict_set ((k', v') # d) k v = (if k' = k then (k, v) # d else (k', v') # dict_set d k v)"

fun collect_rates ::
  "python \<Rightarrow> (pystr \<times> json) list \<Rightarrow> pystr \<Rightarrow> pystr list \<Rightarrow> (pystr \<times> pyfloat) list
     \<Rightarrow> error + (pystr \<times> pyfloat) list" where
  "collect_rates py rs target [] rates = Inr rates"
| "collect_rates py rs target (day # days) rates =
     (case map_of rs day of
        None \<Rightarrow> Inl KeyError
      | Some payload \<Rightarrow>
          (case payload of
             JObj p \<Rightarrow>
               (case map_of p target of
                  None \<Rightarrow> collect_rates py rs target days rates
                | Some val \<Rightarrow>
                    if val = JNull then collect_rates py rs target days rates
                    else (case py_float py val of
                            Inl e \<Rightarrow> Inl e
                          | Inr f \<Rightarrow> collect_rates py rs target days (dict_set rates day f)))
           | _ \<Rightarrow> Inl AttributeError))"

text \<open>
  What a day's payload quotes for the target: the value under the target's code in the
  day's \<open>dict\<close>, when there is one and it is not \<open>null\<close>.
\<close>

definition quoted :: "(pystr \<times> json) list \<Rightarrow> pystr \<Rightarrow> pystr \<Rightarrow> json option" where
  "quoted rs target day =
     (case map_of rs day of
        Some (JObj p) \<Rightarrow>
          (case map_of p target of
             Some v \<Rightarrow> if v = JNull then None else Some v
           | None \<Rightarrow> None)
      | _ \<Rightarrow> None)"

text \<open>
  The calendar date that a string of the form \<open>YYYY-MM-DD\<close> denotes, as year, month
  and day, and the order of dates.
\<close>

definition is_digit :: "nat \<Rightarrow> bool" where
  "is_digit c = (48 \<le> c \<and> c \<le> 57)"

definition number2 :: "nat \<Rightarrow> nat \<Rightarrow> nat" where
  "number2 a b = 10 * (a - 48) + (b - 48)"

definition iso_date :: "pystr \<Rightarrow> (nat \<times> nat \<times> nat) option" where
  "iso_date s =
     (case s of
        [y1, y2, y3, y4, h1, m1, m2, h2, d1, d2] \<Rightarrow>
          if h1 = 45 \<and> h2 = 45 \<and> list_all is_digit [y1, y2, y3, y4, m1, m2, d1, d2]
          then Some (100 * number2 y1 y2 + number2 y3 y4, number2 m1 m2, number2 d1 d2)
          else None
      | _ \<Rightarrow> None)"

definition date_less :: "nat \<times> nat \<times> nat \<Rightarrow> nat \<times> nat \<times> nat \<Rightarrow> bool" where
  "date_less a b =
     (case (a, b) of
        ((y, m, d), (y', m', d')) \<Rightarrow> y < y' \<or> (y = y' \<and> (m < m' \<or> (m = m' \<and> d < d'))))"

definition series_of :: "python \<Rightarrow> json \<Rightarrow> pystr \<Rightarrow> error + (pystr \<times> pyfloat) list" where
  "series_of py data target =
     (case py_in (cps ''rates'') data of
        Inl e \<Rightarrow> Inl e
      | Inr present \<Rightarrow>
          if \<not> present then Inl (ValueError TimeseriesFailed)
          else (case py_getitem data (cps ''rates'') of
                  Inl e \<Rightarrow> Inl e
                | Inr r \<Rightarrow>
                    (case r of
                       JObj rs \<Rightarrow>
                         (case collect_rates py rs target (sort (remdups (map fst rs))) [] of
                            Inl e \<Rightarrow> Inl e
                          | Inr rates \<Rightarrow>
                              if rates = [] then Inl (ValueError NoHistoricalRates)
                              else Inr rates)
                     | _ \<Rightarrow> Inl AttributeError)))"

definition fetch_timeseries ::
  "python \<Rightarrow> world \<Rightarrow> request list \<Rightarrow> pystr \<Rightarrow> pystr \<Rightarrow> int
     \<Rightarrow> (error + (pystr \<times> pyfloat) list) \<times> request list" where
  "fetch_timeseries py w sent base target days =
     (case start_date (today_at_fetch w) days of
        Inl e \<Rightarrow> (Inl e, sent)
      | Inr start \<Rightarrow>
          (let req = Timeseries (isoformat py start) (isoformat py (today_at_fetch w)) base target
           in case http w req of
                Failed \<Rightarrow> (Inl RequestException, sent @ [req])
              | Body data \<Rightarrow> (series_of py data target, sent @ [req])))"

section \<open>Utilities\<close>

text \<open>
  \<^verbatim>\<open>
  def normalize_ccy(ccy: str) -> str:
      c = ccy.strip().upper()
      if len(c) != 3 or not c.isalpha():
          raise ValueError(f"Invalid currency code: {ccy!r}. ...")
      return c
  \<close>
\<close>

definition normalize_ccy :: "unicode \<Rightarrow> pystr \<Rightarrow> error + pystr" where
  "normalize_ccy u ccy =
     (let c = py_upper u (py_strip u ccy)
      in if length c \<noteq> 3 \<or> \<not> py_isalpha u c
         then Inl (ValueError (InvalidCurrencyCode ccy))
         else Inr c)"

section \<open>The window\<close>

text \<open>
  What \<open>CurrencyApp\<close> holds and what it shows: the four entry fields, the content of
  the output box, the error dialogs shown, the charts shown, and the requests sent so
  far.
\<close>

datatype dialog = NetworkErrorDialog | ErrorDialog error

datatype chart =
    RateHistory "(pystr \<times> pyfloat) list" pystr pystr
  | TodayVsAvg pyfloat pyfloat pystr pystr
  | AmountComparison pyfloat pyfloat pystr pystr

record app =
  amount_var :: pystr
  base_var :: pystr
  target_var :: pystr
  days_var :: pystr
  output_box :: pystr
  dialogs :: "dialog list"
  charts :: "chart list"
  sent :: "request list"

definition clear_output :: "app \<Rightarrow> app" where
  "clear_output st = st\<lparr>output_box := []\<rparr>"

text \<open>\<open>write_line\<close> is the method \<open>_write_line\<close>: the text and a newline go to the end.\<close>

definition write_line :: "pystr \<Rightarrow> app \<Rightarrow> app" where
  "write_line text st = st\<lparr>output_box := output_box st @ text @ [10]\<rparr>"

text \<open>
  The first lines of the \<open>try\<close> block of \<open>on_convert\<close>:
  \<^verbatim>\<open>
  amount = float(self.amount_var.get())
  base = normalize_ccy(self.base_var.get())
  target = normalize_ccy(self.target_var.get())
  days_str = self.days_var.get().strip()
  days = int(days_str) if days_str else 30
  if days < 1:
      raise ValueError("History days must be >= 1")
  \<close>
\<close>

definition parse_inputs :: "python \<Rightarrow> app \<Rightarrow> error + pyfloat \<times> pystr \<times> pystr \<times> int" where
  "parse_inputs py st =
     (case float_of_str py (amount_var st) of
        None \<Rightarrow> Inl (ValueError CouldNotConvert)
      | Some amount \<Rightarrow>
          (case normalize_ccy (unicode_db py) (base_var st) of
             Inl e \<Rightarrow> Inl e
           | Inr base \<Rightarrow>
               (case normalize_ccy (unicode_db py) (target_var st) of
                  Inl e \<Rightarrow> Inl e
                | Inr target \<Rightarrow>
                    (let days_str = py_strip (unicode_db py) (days_var st)
                     in case (if days_str \<noteq> []
                              then (case int_of_str py days_str of
                                      None \<Rightarrow> Inl (ValueError CouldNotConvert)
                                    | Some d \<Rightarrow> Inr d)
                              else Inr 30) of
                          Inl e \<Rightarrow> Inl e
                        | Inr days \<Rightarrow>
                            if days < 1 then Inl (ValueError HistoryDaysTooSmall)
                            else Inr (amount, base, target, days)))))"

text \<open>
  The builtin \<open>sum\<close> on a list of floats starts from the \<open>int\<close> 0 and adds the
  first value to it. From there CPython up to 3.11 adds the values one by one from the
  left; CPython from 3.12 on runs Neumaier's compensated summation: beside the running
  sum \<open>f\<close> it keeps the sum \<open>c\<close> of the rounding errors,
  \<^verbatim>\<open>
  t = f + x
  if fabs(f) >= fabs(x): c += (f - t) + x
  else:                  c += (x - t) + f
  f = t
  \<close>
  and at the end adds \<open>c\<close> to \<open>f\<close> if \<open>c\<close> is finite and not zero.
\<close>

fun neumaier :: "pyfloat \<Rightarrow> pyfloat \<Rightarrow> pyfloat list \<Rightarrow> pyfloat" where
  "neumaier f c [] = (case c of Fin r \<Rightarrow> if r \<noteq> 0 then fadd f c else f | _ \<Rightarrow> f)"
| "neumaier f c (x # xs) =
     (let t = fadd f x
      in neumaier t
           (if fge (fabs f) (fabs x) then fadd c (fadd (fsub f t) x)
            else fadd c (fadd (fsub x t) f))
           xs)"

fun py_sum :: "python \<Rightarrow> pyfloat list \<Rightarrow> pyfloat" where
  "py_sum py [] = Fin 0"
| "py_sum py (x # xs) =
     (if compensated_sum py then neumaier (fadd (Fin 0) x) (Fin 0) xs
      else foldl fadd (fadd (Fin 0) x) xs)"

text \<open>
  The average of \<open>on_convert\<close>; \<open>today\<close> is \<open>dt.date.today().isoformat()\<close>. The
  division converts the \<open>int\<close> divisor to a float.
  \<^verbatim>\<open>
  dates_sorted = list(rates.keys())
  if dates_sorted:
      last_day = dates_sorted[-1]
      is_today_included = (last_day == dt.date.today().isoformat())
  else:
      is_today_included = False
  values = list(rates.values())
  if is_today_included and len(values) > 1:
      avg_rate = sum(values[:-1]) / (len(values) - 1)
  else:
      avg_rate = sum(values) / len(values)
  \<close>
\<close>

definition period_average :: "python \<Rightarrow> pystr \<Rightarrow> (pystr \<times> pyfloat) list \<Rightarrow> error + pyfloat" where
  "period_average py today rates =
     (let dates_sorted = map fst rates;
          is_today_included = (if dates_sorted \<noteq> [] then last dates_sorted = today else False);
          values = map snd rates
      in if is_today_included \<and> 1 < length values
         then (case float_of_int (int (length values) - 1) of
                 Inl e \<Rightarrow> Inl e
               | Inr n \<Rightarrow> fdiv (py_sum py (take (length values - 1) values)) n)
         else (case float_of_int (int (length values)) of
                 Inl e \<Rightarrow> Inl e
               | Inr n \<Rightarrow> fdiv (py_sum py values) n))"

text \<open>
  \<open>plot_rate_history\<close> parses every date with \<open>datetime.fromisoformat\<close>, which
  raises \<open>ValueError\<close> on a key that is not a date, before it draws; the other two
  plots only draw. What matplotlib draws is recorded as the chart's data.
\<close>

definition plot_rate_history :: "python \<Rightarrow> (pystr \<times> pyfloat) list \<Rightarrow> pystr \<Rightarrow> pystr \<Rightarrow> error + chart" where
  "plot_rate_history py rates base target =
     (if list_all (fromisoformat_ok py) (map fst rates) then Inr (RateHistory rates base target)
      else Inl (ValueError InvalidIsoformat))"

definition plot_today_vs_avg :: "pyfloat \<Rightarrow> pyfloat \<Rightarrow> pystr \<Rightarrow> pystr \<Rightarrow> chart" where
  "plot_today_vs_avg today_rate avg_rate base target = TodayVsAvg today_rate avg_rate base target"

definition plot_amount_comparison :: "pyfloat \<Rightarrow> pyfloat \<Rightarrow> pystr \<Rightarrow> pystr \<Rightarrow> chart" where
  "plot_amount_comparison original_amount converted_amount base target =
     AmountComparison original_amount converted_amount base target"

text \<open>The five lines written after the conversion, and the two written after the average.\<close>

definition write_conversion :: "python \<Rightarrow> pyfloat \<Rightarrow> pystr \<Rightarrow> pystr \<Rightarrow> pyfloat \<Rightarrow> pyfloat \<Rightarrow> app \<Rightarrow> app" where
  "write_conversion py amount base target converted today_rate st =
     write_line (replicate 50 45)
       (write_line (cps ''Converted    : '' @ format_float py 4 converted @ [32] @ target)
         (write_line (cps ''Current rate : 1 '' @ base @ cps '' = ''
                        @ format_float py 6 today_rate @ [32] @ target)
           (write_line (cps ''Amount       : '' @ format_float py 4 amount @ [32] @ base)
             (write_line (replicate 50 45) st))))"

definition write_average :: "python \<Rightarrow> int \<Rightarrow> pyfloat \<Rightarrow> pystr \<Rightarrow> pystr \<Rightarrow> app \<Rightarrow> app" where
  "write_average py days avg_rate base target st =
     write_line (cps ''Close the charts to continue...'')
       (write_line (cps ''Avg rate ('' @ str_of_int py days @ cps ''d window): ''
                      @ format_float py 6 avg_rate @ [32] @ target @ [47] @ base) st)"

text \<open>
  The \<open>try\<close> block of \<open>on_convert\<close>: the exception that leaves it, if any, and the
  window as it is then.
  \<^verbatim>\<open>
  converted, today_rate = fetch_conversion(amount, base, target)
  self.clear_output()
  self._write_line("-" * 50)
  ...
  rates = fetch_timeseries(base, target, days=days)
  ...
  self._write_line(f"Avg rate ({days}d window): {avg_rate:.6f} {target}/{base}")
  self._write_line("Close the charts to continue...")
  plot_rate_history(rates, base, target)
  plot_today_vs_avg(today_rate, avg_rate, base, target)
  plot_amount_comparison(amount, converted, base, target)
  plt.show()
  \<close>
\<close>

definition try_convert :: "python \<Rightarrow> world \<Rightarrow> app \<Rightarrow> error option \<times> app" where
  "try_convert py w st =
     (case parse_inputs py st of
        Inl e \<Rightarrow> (Some e, st)
      | Inr (amount, base, target, days) \<Rightarrow>
          (case fetch_conversion py w (sent st) amount base target of
             (Inl e, sent1) \<Rightarrow> (Some e, st\<lparr>sent := sent1\<rparr>)
           | (Inr (converted, today_rate), sent1) \<Rightarrow>
               (let st1 = write_conversion py amount base target converted today_rate
                            (clear_output (st\<lparr>sent := sent1\<rparr>))
                in case fetch_timeseries py w (sent st1) base target days of
                     (Inl e, sent2) \<Rightarrow> (Some e, st1\<lparr>sent := sent2\<rparr>)
                   | (Inr rates, sent2) \<Rightarrow>
                       (case period_average py (isoformat py (today_at_check w)) rates of
                          Inl e \<Rightarrow> (Some e, st1\<lparr>sent := sent2\<rparr>)
                        | Inr avg_rate \<Rightarrow>
                            (let st2 = write_average py days avg_rate base target
                                         (st1\<lparr>sent := sent2\<rparr>)
                             in case plot_rate_history py rates base target of
                                  Inl e \<Rightarrow> (Some e, st2)
                                | Inr history \<Rightarrow>
                                    (None, st2\<lparr>charts := charts st2 @
                                       [history,
                                        plot_today_vs_avg today_rate avg_rate base target,
                                        plot_amount_comparison amount converted base target]\<rparr>))))))"

text \<open>
  \<^verbatim>\<open>
  except requests.exceptions.RequestException as e:
      messagebox.showerror("Network Error", ...)
  except Exception as e:
      messagebox.showerror("Error", str(e))
  \<close>
\<close>

definition on_convert :: "python \<Rightarrow> world \<Rightarrow> app \<Rightarrow> app" where
  "on_convert py w st =
     (case try_convert py w st of
        (None, st') \<Rightarrow> st'
      | (Some e, st') \<Rightarrow>
          if e = RequestException then st'\<lparr>dialogs := dialogs st' @ [NetworkErrorDialog]\<rparr>
          else st'\<lparr>dialogs := dialogs st' @ [ErrorDialog e]\<rparr>)"

section \<open>A concrete run\<close>

text \<open>
  A Python, a rate service and a day at which the theorems below are instantiated: the
  service answers the conversion of an amount of 100 with 200, and the history of the last
  30 days before 2025-11-10 (ordinal 739565) with four days, one of which quotes another
  currency. The library functions are tables with the entries these runs read; what
  they return elsewhere is arbitrary.
\<close>

definition fixture_python :: python where
  "fixture_python =
     \<lparr>unicode_db = latin1_only,
      compensated_sum = True,
      float_of_str = (\<lambda>s. if s = cps ''100'' then Some (Fin 100)
                          else if s = cps ''0'' then Some (Fin 0)
                          else if s = cps ''inf'' then Some PInf
                          else None),
      int_of_str = (\<lambda>s. if s = cps ''30'' then Some 30
                        else if s = cps ''0'' then Some 0
                        else None),
      format_float = (\<lambda>n f. if n = 4 \<and> f = Fin 100 then cps ''100.0000''
                            else if n = 4 \<and> f = Fin 200 then cps ''200.0000''
                            else if n = 6 \<and> f = Fin 1 then cps ''1.000000''
                            else if n = 6 \<and> f = Fin 2 then cps ''2.000000''
                            else if n = 6 \<and> f = Fin 15 then cps ''15.000000''
                            else []),
      str_of_int = (\<lambda>i. if i = 30 then cps ''30'' else []),
      isoformat = (\<lambda>d. if d = 739565 then cps ''2025-11-10''
                       else if d = 739535 then cps ''2025-10-11''
                       else []),
      fromisoformat_ok = (\<lambda>s. s = cps ''2025-11-07'' \<or> s = cps ''2025-11-08''
                              \<or> s = cps ''2025-11-09'' \<or> s = cps ''2025-11-10'')\<rparr>"

definition rates_body :: json where
  "rates_body =
     JObj [(cps ''amount'', JFloat (Fin 100)), (cps ''base'', JStr (cps ''INR'')),
           (cps ''rates'', JObj [(cps ''USD'', JFloat (Fin 200))])]"

definition history_days :: "(pystr \<times> json) list" where
  "history_days =
     [(cps ''2025-11-10'', JObj [(cps ''USD'', JInt 99)]),
      (cps ''2025-11-09'', JObj [(cps ''EUR'', JInt 5)]),
      (cps ''2025-11-07'', JObj [(cps ''USD'', JInt 10)]),
      (cps ''2025-11-08'', JObj [(cps ''USD'', JInt 20)])]"

definition history_fields :: "(pystr \<times> json) list" where
  "history_fields = [(cps ''base'', JStr (cps ''INR'')), (cps ''rates'', JObj history_days)]"

definition history_body :: json where
  "history_body = JObj history_fields"

definition fixture_world :: world where
  "fixture_world =
     \<lparr>http = (\<lambda>req. if req = Latest (Fin 100) (cps ''INR'') (cps ''USD'') then Body rates_body
                    else if req = Latest (Fin 0) (cps ''INR'') (cps ''USD'') then Body rates_body
                    else if req = Latest (Fin 0) (cps ''INR'') (cps ''EUR'') then Body rates_body
                    else if req = Timeseries (cps ''2025-10-11'') (cps ''2025-11-10'')
                                    (cps ''INR'') (cps ''USD'')
                         then Body history_body
                    else if req = Timeseries (cps ''2025-10-11'') (cps ''2025-11-10'')
                                    (cps ''INR'') (cps ''GBP'')
                         then Body history_body
                    else Failed),
      today_at_fetch = 739565,
      today_at_check = 739565\<rparr>"

text \<open>
  Three states of the window before the button is pressed: a conversion of 100 INR to
  USD over 30 days; a conversion of 100 USD to USD with the days left blank; and the
  first with 0 days.
\<close>

definition fixture_app :: app where
  "fixture_app =
     \<lparr>amount_var = cps ''100'', base_var = cps ''INR'', target_var = cps ''usd '',
      days_var = cps ''30'', output_box = cps ''previous output'' @ [10],
      dialogs = [], charts = [], sent = []\<rparr>"

definition fixture_same_currency :: app where
  "fixture_same_currency =
     \<lparr>amount_var = cps ''100'', base_var = cps ''USD'', target_var = cps ''USD'',
      days_var = cps '''', output_box = cps ''previous output'' @ [10],
      dialogs = [], charts = [], sent = []\<rparr>"

definition fixture_no_days :: app where
  "fixture_no_days =
     \<lparr>amount_var = cps ''100'', base_var = cps ''INR'', target_var = cps ''USD'',
      days_var = cps ''0'', output_box = cps ''previous output'' @ [10],
      dialogs = [], charts = [], sent = []\<rparr>"

section \<open>The arithmetic mean\<close>

text \<open>
  The arithmetic mean of a list of numbers is their sum divided by their number;
  \<open>float_mean\<close> is what Python computes for it in float arithmetic, as
  \<open>sum(vs) / len(vs)\<close>.
\<close>

definition mean :: "real list \<Rightarrow> real" where
  "mean xs = sum_list xs / real (length xs)"

definition float_mean :: "python \<Rightarrow> pyfloat list \<Rightarrow> error + pyfloat" where
  "float_mean py vs =
     (case float_of_int (int (length vs)) of
        Inl e \<Rightarrow> Inl e
      | Inr n \<Rightarrow> fdiv (py_sum py vs) n)"

text \<open>
  The values of a list and its running sums from the left (starting from \<open>s\<close>) are all
  doubles: no addition of the sum rounds.
\<close>

fun exact_from :: "real \<Rightarrow> real list \<Rightarrow> bool" where
  "exact_from s [] = True"
| "exact_from s (x # xs) = (representable x \<and> representable (s + x) \<and> exact_from (s + x) xs)"

definition exact_sums :: "real list \<Rightarrow> bool" where
  "exact_sums xs = exact_from 0 xs"

text \<open>
  A series whose first two values are the double \<open>2 ^ 1023\<close>, and whose last day is
  today.
\<close>

definition overflowing_series :: "(pystr \<times> pyfloat) list" where
  "overflowing_series =
     [(cps ''2025-11-07'', Fin (2 ^ 1023)), (cps ''2025-11-08'', Fin (2 ^ 1023)),
      (cps ''2025-11-10'', Fin 5)]"

section \<open>Properties of the float arithmetic\<close>

lemma round_even_of_int [simp]: "round_even (of_int z) = z"
  by (simp add: round_even_def)

lemma round_even_minus: "round_even (- q) = - round_even q"
proof (cases "q \<in> \<int>")
  case True
  then obtain z where "q = of_int z" by (auto elim: Ints_cases)
  then have "- q = of_int (- z)" by simp
  then show ?thesis using \<open>q = of_int z\<close> by (simp only: round_even_of_int)
next
  case False
  then have ne: "q \<noteq> of_int \<lfloor>q\<rfloor>"
    by (metis Ints_of_int)
  have d: "0 < q - of_int \<lfloor>q\<rfloor>" "q - of_int \<lfloor>q\<rfloor> < 1"
    using ne by linarith+
  have fl: "\<lfloor>- q\<rfloor> = - \<lfloor>q\<rfloor> - 1"
    using d by (intro floor_unique) auto
  show ?thesis
    unfolding round_even_def Let_def fl using d by (auto simp: algebra_simps)
qed

lemma ulp_of_minus [simp]: "ulp_of (- x) = ulp_of x"
  by (simp add: ulp_of_def)

lemma ulp_of_pos [simp]: "0 < ulp_of x"
  by (simp add: ulp_of_def)

lemma round_double_minus: "round_double (- x) = fneg (round_double x)"
  by (auto simp: round_double_def Let_def round_even_minus)

lemma round_double_not_NaN [simp]: "round_double x \<noteq> NaN"
  by (simp add: round_double_def Let_def)


lemma floor_log2_eqI:
  assumes "0 < x" and "2 powr of_int e \<le> x" and "x < 2 powr (of_int e + 1)"
  shows "\<lfloor>log 2 x\<rfloor> = e"
proof (rule floor_unique)
  show "of_int e \<le> log 2 x"
    using assms by (simp add: le_log_iff)
  show "log 2 x < of_int e + 1"
    using assms by (simp add: log_less_iff)
qed

lemma round_double_dyadic:
  assumes m: "m \<noteq> 0" "\<bar>m\<bar> < 2 ^ 53"
    and bound: "of_int \<bar>m\<bar> * 2 ^ k < (2::real) ^ 1024"
  shows "round_double (of_int m * 2 ^ k) = Fin (of_int m * 2 ^ k)"
proof -
  define x :: real where "x = of_int m * 2 ^ k"
  define a :: real where "a = of_int \<bar>m\<bar>"
  define b where "b = \<lfloor>log 2 a\<rfloor>"
  have a1: "1 \<le> a" using m(1) by (simp add: a_def)
  have a53: "a < 2 ^ 53"
  proof -
    have "(of_int \<bar>m\<bar> :: real) < of_int (2 ^ 53)" using m(2) by (simp only: of_int_less_iff)
    then show ?thesis by (simp add: a_def)
  qed
  have b0: "0 \<le> b"
    using a1 by (simp add: b_def)
  have "log 2 a < 53"
    using a1 a53 by (simp add: log_less_iff powr_realpow [symmetric])
  then have b52: "b \<le> 52"
    unfolding b_def by (simp add: floor_less_iff [symmetric] del: floor_less_iff)
  have absx: "\<bar>x\<bar> = a * 2 ^ k"
    by (simp add: x_def a_def abs_mult)
  have "log 2 \<bar>x\<bar> = log 2 a + real k"
    using a1 unfolding absx by (simp add: log_mult log_nat_power)
  then have lg: "\<lfloor>log 2 \<bar>x\<bar>\<rfloor> = b + int k"
    by (simp add: b_def)
  have ulp: "ulp_of x = 2 powr (of_int b + real k - 52)"
    using b0 by (simp add: ulp_of_def lg max_def)
  have pk: "(2::real) ^ k = 2 powr real k"
    by (simp add: powr_realpow)
  have pb: "(2::real) powr (52 - of_int b) = 2 ^ nat (52 - b)"
  proof -
    have "52 - real_of_int b = real (nat (52 - b))" using b52 by simp
    then show ?thesis by (simp only: powr_realpow zero_less_numeral)
  qed
  have "x / ulp_of x = of_int m * (2 powr real k / 2 powr (of_int b + real k - 52))"
    unfolding ulp by (simp add: x_def pk)
  also have "2 powr real k / 2 powr (of_int b + real k - 52) = (2::real) powr (52 - of_int b)"
    by (simp add: powr_diff [symmetric])
  finally have q: "x / ulp_of x = of_int (m * 2 ^ nat (52 - b))"
    by (simp add: pb)
  have r: "of_int (round_even (x / ulp_of x)) * ulp_of x = x"
  proof -
    have "of_int (round_even (x / ulp_of x)) * ulp_of x = (x / ulp_of x) * ulp_of x"
      unfolding q round_even_of_int ..
    also have "\<dots> = x"
    proof -
      have "ulp_of x \<noteq> 0" using ulp_of_pos [of x] by linarith
      then show ?thesis by simp
    qed
    finally show ?thesis .
  qed
  have x0: "x \<noteq> 0" using m(1) by (simp add: x_def)
  have small: "\<bar>x\<bar> < 2 ^ 1024" using bound by (simp add: absx a_def)
  then have "\<not> 2 ^ 1024 \<le> x" "\<not> x \<le> - (2 ^ 1024)" by linarith+
  then show ?thesis
    unfolding x_def [symmetric] round_double_def Let_def r using x0 by simp
qed

lemma round_double_of_int:
  assumes "\<bar>n\<bar> < 2 ^ 53"
  shows "round_double (of_int n) = Fin (of_int n)"
proof (cases "n = 0")
  case True
  then show ?thesis by (simp add: round_double_def)
next
  case False
  have "(of_int \<bar>n\<bar> :: real) < of_int (2 ^ 53)" using assms by (simp only: of_int_less_iff)
  then have "of_int \<bar>n\<bar> * 2 ^ 0 < (2::real) ^ 1024" by simp
  from round_double_dyadic [OF False assms this] show ?thesis by simp
qed

lemma round_double_numeral [simp]:
  "numeral w < (2::int) ^ 53 \<Longrightarrow> round_double (numeral w) = Fin (numeral w)"
  using round_double_of_int [of "numeral w"] by simp

lemma round_double_zero [simp]: "round_double 0 = Fin 0"
  by (simp add: round_double_def)

lemma round_double_one [simp]: "round_double 1 = Fin 1"
  using round_double_of_int [of 1] by simp

lemma round_double_pow2_overflow:
  assumes "1024 \<le> n"
  shows "round_double (2 ^ n) = PInf"
proof -
  have lg: "\<lfloor>log 2 \<bar>(2::real) ^ n\<bar>\<rfloor> = int n"
    by (simp add: log_nat_power)
  have mx: "max (int n) (- 1022) - 52 = int (n - 52)" using assms by simp
  have "ulp_of (2 ^ n) = 2 powr real_of_int (int (n - 52))"
    unfolding ulp_of_def lg mx ..
  also have "\<dots> = 2 powr real (n - 52)" by simp
  also have "\<dots> = 2 ^ (n - 52)"
    by (simp only: powr_realpow zero_less_numeral)
  finally have ulp: "ulp_of (2 ^ n) = 2 ^ (n - 52)" .
  have "(2::real) ^ n / 2 ^ (n - 52) = of_int (2 ^ 52)"
    using assms by (simp add: power_diff [symmetric])
  then have "of_int (round_even ((2::real) ^ n / ulp_of (2 ^ n))) * ulp_of (2 ^ n)
      = 2 ^ 52 * 2 ^ (n - 52)"
    unfolding ulp by (simp only: round_even_of_int) simp
  also have "\<dots> = (2::real) ^ (52 + (n - 52))"
    by (simp only: power_add)
  also have "52 + (n - 52) = n"
    using assms by simp
  finally have r: "of_int (round_even ((2::real) ^ n / ulp_of (2 ^ n))) * ulp_of (2 ^ n) = 2 ^ n" .
  have "(2::real) ^ 1024 \<le> 2 ^ n"
    using assms by (intro power_increasing) auto
  then show ?thesis
    unfolding round_double_def Let_def r by simp
qed

lemma round_double_neg_numeral [simp]:
  "numeral w < (2::int) ^ 53 \<Longrightarrow> round_double (- numeral w) = Fin (- numeral w)"
  by (simp add: round_double_minus)

lemma round_double_pow2:
  assumes "n < 1024"
  shows "round_double (2 ^ n) = Fin (2 ^ n)"
proof -
  have "(2::real) ^ n < 2 ^ 1024"
    using assms by (intro power_strict_increasing) auto
  then have "of_int \<bar>1\<bar> * 2 ^ n < (2::real) ^ 1024" by simp
  from round_double_dyadic [of 1 n, OF _ _ this] show ?thesis by simp
qed

lemma representable_minus: "representable x \<Longrightarrow> representable (- x)"
  by (simp add: representable_def round_double_minus)

lemma representable_zero [simp]: "representable 0"
  by (simp add: representable_def)

lemma float_of_int_small: "\<bar>i\<bar> < 2 ^ 53 \<Longrightarrow> float_of_int i = Inr (Fin (of_int i))"
  by (simp add: float_of_int_def round_double_of_int)

lemma float_of_int_error: "float_of_int i = Inl e \<Longrightarrow> e = OverflowError"
  by (auto simp: float_of_int_def split: pyfloat.splits)

lemma float_of_int_Fin: "float_of_int i = Inr f \<Longrightarrow> \<exists>r. f = Fin r"
  by (cases "round_double (of_int i)") (auto simp: float_of_int_def)

section \<open>Properties of the input validation\<close>

lemma cps_usd_sp: "cps ''usd '' = [117, 115, 100, 32]"
  by (simp add: cps_def)

lemma cps_USD: "cps ''USD'' = [85, 83, 68]"
  by (simp add: cps_def)

lemma cps_US: "cps ''US'' = [85, 83]"
  by (simp add: cps_def)

lemma cps_US1: "cps ''US1'' = [85, 83, 49]"
  by (simp add: cps_def)

lemma normalize_ccy_usd_sp: "normalize_ccy u [117, 115, 100, 32] = Inr [85, 83, 68]"
  by (simp add: normalize_ccy_def py_upper_def py_strip_def py_isalpha_def cp_isspace_def
      cp_isalpha_def cp_upper_def latin1_isspace_def latin1_isalpha_def latin1_upper_def)

lemma normalize_ccy_US: "normalize_ccy u [85, 83] = Inl (ValueError (InvalidCurrencyCode [85, 83]))"
  by (simp add: normalize_ccy_def py_upper_def py_strip_def py_isalpha_def cp_isspace_def
      cp_isalpha_def cp_upper_def latin1_isspace_def latin1_isalpha_def latin1_upper_def)

lemma normalize_ccy_US1:
  "normalize_ccy u [85, 83, 49] = Inl (ValueError (InvalidCurrencyCode [85, 83, 49]))"
  by (simp add: normalize_ccy_def py_upper_def py_strip_def py_isalpha_def cp_isspace_def
      cp_isalpha_def cp_upper_def latin1_isspace_def latin1_isalpha_def latin1_upper_def)

text \<open>
  Claim C9. For every input string, \<open>normalize_ccy\<close> strips the surrounding whitespace
  and upper-cases the rest; it returns that result when the result consists of exactly
  three alphabetic characters and fails with the validation error (a \<open>ValueError\<close>
  naming the input) otherwise. In particular \<open>"usd "\<close> gives \<open>"USD"\<close>, while
  \<open>"US"\<close> and \<open>"US1"\<close> fail.
\<close>

theorem normalize_ccy_spec:
  "normalize_ccy u s =
     (if length (py_upper u (py_strip u s)) = 3
         \<and> list_all (cp_isalpha u) (py_upper u (py_strip u s))
      then Inr (py_upper u (py_strip u s))
      else Inl (ValueError (InvalidCurrencyCode s)))
   \<and> normalize_ccy u (cps ''usd '') = Inr (cps ''USD'')
   \<and> normalize_ccy u (cps ''US'') = Inl (ValueError (InvalidCurrencyCode (cps ''US'')))
   \<and> normalize_ccy u (cps ''US1'') = Inl (ValueError (InvalidCurrencyCode (cps ''US1'')))"
proof -
  have general: "normalize_ccy u s =
     (if length (py_upper u (py_strip u s)) = 3
         \<and> list_all (cp_isalpha u) (py_upper u (py_strip u s))
      then Inr (py_upper u (py_strip u s))
      else Inl (ValueError (InvalidCurrencyCode s)))"
    by (auto simp: normalize_ccy_def Let_def py_isalpha_def)
  show ?thesis
    using general normalize_ccy_usd_sp [of u] normalize_ccy_US [of u] normalize_ccy_US1 [of u]
    by (simp only: cps_usd_sp cps_USD cps_US cps_US1 simp_thms)
qed

theorem normalize_ccy_spec_witness:
  "normalize_ccy latin1_only [32, 101, 117, 114, 10] = Inr [69, 85, 82]
   \<and> normalize_ccy latin1_only [69, 85, 82, 79] = Inl (ValueError (InvalidCurrencyCode [69, 85, 82, 79]))"
proof -
  have a: "normalize_ccy latin1_only [32, 101, 117, 114, 10] = Inr [69, 85, 82]"
    using normalize_ccy_spec [of latin1_only "[32, 101, 117, 114, 10]"]
    by (simp add: py_upper_def py_strip_def cp_isspace_def cp_isalpha_def cp_upper_def
        latin1_isspace_def latin1_isalpha_def latin1_upper_def)
  have b: "normalize_ccy latin1_only [69, 85, 82, 79] = Inl (ValueError (InvalidCurrencyCode [69, 85, 82, 79]))"
    using normalize_ccy_spec [of latin1_only "[69, 85, 82, 79]"]
    by (simp add: py_upper_def py_strip_def cp_isspace_def cp_isalpha_def cp_upper_def
        latin1_isspace_def latin1_isalpha_def latin1_upper_def)
  show ?thesis using a b by simp
qed

text \<open>
  Claim C10. The validation is by format only and admits letters outside A-Z: the
  three-character input U+00E9 U+00FB U+00E0 (e acute, u circumflex, a grave), made of
  non-ASCII letters only, is accepted and returned upper-cased as U+00C9 U+00DB U+00C0.
\<close>

theorem normalize_ccy_accepts_non_ascii:
  "normalize_ccy u [233, 251, 224] = Inr [201, 219, 192]
   \<and> list_all (\<lambda>c. 127 < c \<and> cp_isalpha u c) [233, 251, 224]
   \<and> py_upper u [233, 251, 224] = [201, 219, 192]"
  by (simp add: normalize_ccy_def py_upper_def py_strip_def py_isalpha_def cp_isspace_def
      cp_isalpha_def cp_upper_def latin1_isspace_def latin1_isalpha_def latin1_upper_def)

theorem normalize_ccy_accepts_non_ascii_witness:
  "normalize_ccy latin1_only [233, 251, 224] = Inr [201, 219, 192]"
  using normalize_ccy_accepts_non_ascii [of latin1_only] by simp

section \<open>Properties of fetch_conversion\<close>

lemma py_in_error: "py_in k v = Inl e \<Longrightarrow> e = TypeError"
  by (cases v) auto

lemma py_getitem_error: "py_getitem v k = Inl e \<Longrightarrow> e = TypeError \<or> e = KeyError"
  by (cases v) (auto split: option.splits)

lemma py_float_error:
  "py_float py v = Inl e \<Longrightarrow> e = TypeError \<or> e = OverflowError \<or> e = ValueError CouldNotConvert"
  by (cases v) (auto split: option.splits if_splits dest: float_of_int_error)

lemma conversion_of_zero_amount:
  assumes "feq amount (Fin 0)"
  shows "conversion_of py data amount target \<noteq> Inl ZeroDivisionError"
    and "conversion_of py data amount target = Inr (c, r) \<Longrightarrow> r = NaN"
  using assms
  by (auto simp: conversion_of_def fne_def Let_def
      split: json.splits sum.splits if_splits option.splits
      dest: py_in_error py_getitem_error py_float_error)

lemma conversion_of_present:
  assumes "map_of kvs (cps ''rates'') = Some (JObj rs)" and "map_of rs target = Some v"
    and "py_float py v = Inr c"
  shows "conversion_of py (JObj kvs) amount target =
           (if fne amount (Fin 0)
            then (case fdiv c amount of Inl e \<Rightarrow> Inl e | Inr q \<Rightarrow> Inr (c, q))
            else Inr (c, NaN))"
  using assms by (simp add: conversion_of_def)

lemma fdiv_not_nan:
  assumes "fne amount (Fin 0)" "amount \<noteq> NaN" "converted \<noteq> NaN"
    "\<not> (is_inf amount \<and> is_inf converted)"
  shows "\<exists>q. fdiv converted amount = Inr q \<and> q \<noteq> NaN"
  using assms by (cases amount; cases converted) (auto simp: fne_def feq_def is_inf_def)

lemma conversion_of_rate:
  assumes "conversion_of py data amount target = Inr (converted, rate)" "fne amount (Fin 0)"
  shows "fdiv converted amount = Inr rate"
  using assms
  by (auto simp: conversion_of_def Let_def
      split: json.splits sum.splits if_splits option.splits)

lemma fixture_latest_inr_usd:
  "http fixture_world (Latest (Fin 0) (cps ''INR'') (cps ''USD'')) = Body rates_body"
  by (simp add: fixture_world_def cps_def)

text \<open>
  Claim C4. Whatever the amount, when base and target are the same code
  \<open>fetch_conversion\<close> returns exactly \<open>(amount, 1.0)\<close> and sends no request: the log
  of requests is the one it was given.
\<close>

theorem fetch_conversion_same_currency:
  "fetch_conversion py w reqs amount code code = (Inr (amount, Fin 1), reqs)"
  by (simp add: fetch_conversion_def)

theorem fetch_conversion_same_currency_witness:
  "fetch_conversion fixture_python fixture_world [] (Fin 100) (cps ''USD'') (cps ''USD'')
     = (Inr (Fin 100, Fin 1), [])"
  by (rule fetch_conversion_same_currency)

text \<open>
  Claim C2, as stated, fails: with \<open>amount == 0\<close> and base equal to target the rate
  returned is 1.0, not NaN; and with \<open>amount == 0\<close> a response that holds no rate for
  the target makes the call raise \<open>ValueError\<close>.
\<close>

theorem fetch_conversion_zero_amount_counterexample:
  "feq (Fin 0) (Fin 0)
   \<and> fetch_conversion fixture_python fixture_world [] (Fin 0) (cps ''USD'') (cps ''USD'')
       = (Inr (Fin 0, Fin 1), [])
   \<and> Fin 1 \<noteq> NaN
   \<and> fetch_conversion fixture_python fixture_world [] (Fin 0) (cps ''INR'') (cps ''EUR'')
       = (Inl (ValueError NoRateReturned), [Latest (Fin 0) (cps ''INR'') (cps ''EUR'')])"
  by (simp add: fetch_conversion_def feq_def fixture_world_def rates_body_def
      conversion_of_def cps_def)

text \<open>
  Claim C2, amended. With \<open>amount == 0\<close> and base different from target,
  \<open>fetch_conversion\<close> never raises \<open>ZeroDivisionError\<close>; every pair it returns has
  the rate NaN; and it does return, with the rate NaN, whenever the response holds under
  \<open>"rates"\<close> a value for the target that \<open>float\<close> accepts.
\<close>

theorem fetch_conversion_zero_amount:
  assumes "feq amount (Fin 0)" and "base \<noteq> target"
  shows "fst (fetch_conversion py w reqs amount base target) \<noteq> Inl ZeroDivisionError
    \<and> (\<forall>c r. fst (fetch_conversion py w reqs amount base target) = Inr (c, r) \<longrightarrow> r = NaN)
    \<and> (\<forall>kvs rs v c. http w (Latest amount base target) = Body (JObj kvs)
          \<and> map_of kvs (cps ''rates'') = Some (JObj rs) \<and> map_of rs target = Some v
          \<and> py_float py v = Inr c
          \<longrightarrow> fetch_conversion py w reqs amount base target
                = (Inr (c, NaN), reqs @ [Latest amount base target]))"
proof (intro conjI allI impI)
  show "fst (fetch_conversion py w reqs amount base target) \<noteq> Inl ZeroDivisionError"
    using assms conversion_of_zero_amount(1) [OF assms(1)]
    by (simp add: fetch_conversion_def split: http_result.splits)
next
  fix c r
  assume "fst (fetch_conversion py w reqs amount base target) = Inr (c, r)"
  then show "r = NaN"
    using assms conversion_of_zero_amount(2) [OF assms(1)]
    by (auto simp: fetch_conversion_def split: http_result.splits)
next
  fix kvs rs v c
  assume h: "http w (Latest amount base target) = Body (JObj kvs)
          \<and> map_of kvs (cps ''rates'') = Some (JObj rs) \<and> map_of rs target = Some v
          \<and> py_float py v = Inr c"
  then have "conversion_of py (JObj kvs) amount target = Inr (c, NaN)"
    using assms(1) conversion_of_present [of kvs rs target v py c amount]
    by (simp add: fne_def)
  then show "fetch_conversion py w reqs amount base target
                = (Inr (c, NaN), reqs @ [Latest amount base target])"
    using h assms(2) by (simp add: fetch_conversion_def)
qed

theorem fetch_conversion_zero_amount_witness:
  "feq (Fin 0) (Fin 0) \<and> cps ''INR'' \<noteq> cps ''USD''
   \<and> fetch_conversion fixture_python fixture_world [] (Fin 0) (cps ''INR'') (cps ''USD'')
       = (Inr (Fin 200, NaN), [Latest (Fin 0) (cps ''INR'') (cps ''USD'')])"
proof -
  have z: "feq (Fin 0) (Fin 0)" by (simp add: feq_def)
  have d: "cps ''INR'' \<noteq> cps ''USD''" by (simp add: cps_def)
  have r: "http fixture_world (Latest (Fin 0) (cps ''INR'') (cps ''USD''))
             = Body (JObj [(cps ''amount'', JFloat (Fin 100)), (cps ''base'', JStr (cps ''INR'')),
                           (cps ''rates'', JObj [(cps ''USD'', JFloat (Fin 200))])])
           \<and> map_of [(cps ''amount'', JFloat (Fin 100)), (cps ''base'', JStr (cps ''INR'')),
                      (cps ''rates'', JObj [(cps ''USD'', JFloat (Fin 200))])] (cps ''rates'')
             = Some (JObj [(cps ''USD'', JFloat (Fin 200))])
           \<and> map_of [(cps ''USD'', JFloat (Fin 200))] (cps ''USD'') = Some (JFloat (Fin 200))
           \<and> py_float fixture_python (JFloat (Fin 200)) = Inr (Fin 200)"
    using fixture_latest_inr_usd by (simp add: rates_body_def cps_def)
  have "fetch_conversion fixture_python fixture_world [] (Fin 0) (cps ''INR'') (cps ''USD'')
       = (Inr (Fin 200, NaN), [] @ [Latest (Fin 0) (cps ''INR'') (cps ''USD'')])"
    using fetch_conversion_zero_amount [OF z d, of fixture_python fixture_world "[]"] r
    by blast
  then show ?thesis using z d by simp
qed

text \<open>
  Claim C5, as stated, fails: an infinite amount is different from 0, the call with base
  equal to target succeeds and returns \<open>(inf, 1.0)\<close>, and \<open>inf / inf\<close> is NaN, which
  \<open>1.0\<close> does not equal.
\<close>

theorem fetch_conversion_rate_counterexample:
  "fne PInf (Fin 0)
   \<and> fetch_conversion fixture_python fixture_world [] PInf (cps ''USD'') (cps ''USD'')
       = (Inr (PInf, Fin 1), [])
   \<and> fdiv PInf PInf = Inr NaN
   \<and> \<not> feq (Fin 1) NaN"
  by (simp add: fetch_conversion_def fne_def feq_def)

text \<open>
  Claim C5, amended. For every successful call of \<open>fetch_conversion\<close> with an amount
  that is different from 0 and not NaN, whose returned \<open>converted\<close> is not NaN and is
  not infinite together with the amount, the division \<open>converted / amount\<close> is
  defined and the returned rate equals it (under Python's \<open>==\<close>).
\<close>

theorem fetch_conversion_rate:
  assumes "fst (fetch_conversion py w reqs amount base target) = Inr (converted, rate)"
    and "fne amount (Fin 0)" and "amount \<noteq> NaN" and "converted \<noteq> NaN"
    and "\<not> (is_inf amount \<and> is_inf converted)"
  shows "\<exists>q. fdiv converted amount = Inr q \<and> feq rate q"
proof (cases "base = target")
  case True
  with assms(1) have eq: "converted = amount" "rate = Fin 1"
    by (simp_all add: fetch_conversion_def)
  from assms(2,3,5) eq obtain a where a: "amount = Fin a" "a \<noteq> 0"
    by (cases amount) (auto simp: fne_def feq_def is_inf_def)
  then show ?thesis using eq by (simp add: feq_def)
next
  case False
  with assms(1) obtain data where "conversion_of py data amount target = Inr (converted, rate)"
    by (auto simp: fetch_conversion_def split: http_result.splits)
  then have r: "fdiv converted amount = Inr rate"
    using assms(2) by (rule conversion_of_rate)
  moreover from fdiv_not_nan [OF assms(2,3,4,5)] r have "rate \<noteq> NaN" by auto
  ultimately show ?thesis by (simp add: feq_def)
qed

theorem fetch_conversion_rate_witness:
  "fst (fetch_conversion fixture_python fixture_world [] (Fin 100) (cps ''INR'') (cps ''USD''))
     = Inr (Fin 200, Fin 2)
   \<and> fne (Fin 100) (Fin 0)
   \<and> fdiv (Fin 200) (Fin 100) = Inr (Fin 2)
   \<and> feq (Fin 2) (Fin 2)"
proof -
  have run: "fst (fetch_conversion fixture_python fixture_world [] (Fin 100) (cps ''INR'') (cps ''USD''))
     = Inr (Fin 200, Fin 2)"
    by (simp add: fetch_conversion_def fixture_world_def rates_body_def conversion_of_def
        cps_def fne_def feq_def)
  have nz: "fne (Fin 100) (Fin 0)" by (simp add: fne_def feq_def)
  have "\<exists>q. fdiv (Fin 200) (Fin 100) = Inr q \<and> feq (Fin 2) q"
    using fetch_conversion_rate [OF run nz] by (simp add: is_inf_def)
  then show ?thesis using run nz by auto
qed

section \<open>Properties of fetch_timeseries\<close>

lemma dict_set_fresh: "k \<notin> fst ` set d \<Longrightarrow> dict_set d k v = d @ [(k, v)]"
  by (induction d) auto

lemma collect_rates_step:
  "collect_rates py rs target (day # days) rates = Inr res \<Longrightarrow>
     (quoted rs target day = None \<and> collect_rates py rs target days rates = Inr res)
   \<or> (\<exists>v f. quoted rs target day = Some v \<and> py_float py v = Inr f
          \<and> collect_rates py rs target days (dict_set rates day f) = Inr res)"
  by (auto simp: quoted_def split: option.splits json.splits sum.splits if_splits)

lemma collect_rates_result:
  assumes "collect_rates py rs target days rates = Inr res"
    and "distinct (map fst rates @ days)"
  shows "\<exists>new. res = rates @ new
           \<and> map fst new = filter (\<lambda>d. quoted rs target d \<noteq> None) days
           \<and> (\<forall>d f. (d, f) \<in> set new \<longrightarrow> (\<exists>v. quoted rs target d = Some v \<and> py_float py v = Inr f))"
  using assms
proof (induction days arbitrary: rates)
  case Nil
  then show ?case by simp
next
  case (Cons day days)
  from collect_rates_step [OF Cons.prems(1)] show ?case
  proof (elim disjE conjE exE)
    assume q: "quoted rs target day = None"
      and r: "collect_rates py rs target days rates = Inr res"
    from Cons.prems(2) have "distinct (map fst rates @ days)" by simp
    from Cons.IH [OF r this] q show ?thesis by auto
  next
    fix v f
    assume q: "quoted rs target day = Some v" and fl: "py_float py v = Inr f"
      and r: "collect_rates py rs target days (dict_set rates day f) = Inr res"
    from Cons.prems(2) have fresh: "day \<notin> fst ` set rates" by auto
    then have ds: "dict_set rates day f = rates @ [(day, f)]" by (rule dict_set_fresh)
    from Cons.prems(2) have "distinct (map fst (rates @ [(day, f)]) @ days)" by auto
    from Cons.IH [OF r [unfolded ds] this] obtain new where
      new: "res = (rates @ [(day, f)]) @ new"
        "map fst new = filter (\<lambda>d. quoted rs target d \<noteq> None) days"
        "\<forall>d f. (d, f) \<in> set new \<longrightarrow> (\<exists>v. quoted rs target d = Some v \<and> py_float py v = Inr f)"
      by blast
    show ?thesis
    proof (intro exI conjI)
      show "res = rates @ ((day, f) # new)" using new(1) by simp
      show "map fst ((day, f) # new) = filter (\<lambda>d. quoted rs target d \<noteq> None) (day # days)"
        using new(2) q by simp
      show "\<forall>d g. (d, g) \<in> set ((day, f) # new) \<longrightarrow> (\<exists>v. quoted rs target d = Some v \<and> py_float py v = Inr g)"
        using new(3) q fl by auto
    qed
  qed
qed

lemma sorted_days: "sorted_wrt (<) (sort (remdups ks :: pystr list))"
  by (simp add: strict_sorted_iff)

lemma series_of_Inr:
  assumes "series_of py data target = Inr rates"
  shows "\<exists>kvs rs. data = JObj kvs \<and> map_of kvs (cps ''rates'') = Some (JObj rs)
           \<and> collect_rates py rs target (sort (remdups (map fst rs))) [] = Inr rates
           \<and> rates \<noteq> []"
proof -
  from assms obtain r where "py_getitem data (cps ''rates'') = Inr r"
    by (auto simp: series_of_def split: sum.splits if_splits)
  then obtain kvs where kvs: "data = JObj kvs" "map_of kvs (cps ''rates'') = Some r"
    by (cases data) (auto split: option.splits)
  with assms obtain rs where "r = JObj rs"
    by (cases r) (auto simp: series_of_def split: sum.splits if_splits)
  with assms kvs show ?thesis
    by (auto simp: series_of_def split: sum.splits if_splits)
qed

lemma fetch_timeseries_Inr:
  assumes "fst (fetch_timeseries py w reqs base target days) = Inr rates"
  shows "\<exists>start data. start_date (today_at_fetch w) days = Inr start
           \<and> http w (Timeseries (isoformat py start) (isoformat py (today_at_fetch w)) base target)
               = Body data
           \<and> series_of py data target = Inr rates"
  using assms
  by (auto simp: fetch_timeseries_def Let_def split: sum.splits http_result.splits)

lemma iso_date_SomeD:
  assumes "iso_date s = Some x"
  shows "\<exists>y1 y2 y3 y4 m1 m2 d1 d2.
           s = [y1, y2, y3, y4, 45, m1, m2, 45, d1, d2]
           \<and> list_all is_digit [y1, y2, y3, y4, m1, m2, d1, d2]
           \<and> x = (100 * number2 y1 y2 + number2 y3 y4, number2 m1 m2, number2 d1 d2)"
  using assms
  by (auto simp: iso_date_def split: list.splits if_splits)

lemma number2_less:
  assumes "is_digit a" "is_digit b" "is_digit a'" "is_digit b'"
  shows "[a, b] < [a', b'] \<longleftrightarrow> number2 a b < number2 a' b'"
    and "[a, b] = [a', b'] \<longleftrightarrow> number2 a b = number2 a' b'"
    and "number2 a b < 100"
  using assms unfolding is_digit_def number2_def
  by (cases "a < a'"; cases "a' < a"; force)+

lemma iso_date_less:
  assumes "iso_date a = Some x" and "iso_date b = Some y" and "a < b"
  shows "date_less x y"
proof -
  from iso_date_SomeD [OF assms(1)] obtain y1 y2 y3 y4 m1 m2 d1 d2 where
    a: "a = [y1, y2, y3, y4, 45, m1, m2, 45, d1, d2]"
    and da: "is_digit y1" "is_digit y2" "is_digit y3" "is_digit y4" "is_digit m1" "is_digit m2"
      "is_digit d1" "is_digit d2"
    and x: "x = (100 * number2 y1 y2 + number2 y3 y4, number2 m1 m2, number2 d1 d2)"
    by auto
  from iso_date_SomeD [OF assms(2)] obtain z1 z2 z3 z4 n1 n2 e1 e2 where
    b: "b = [z1, z2, z3, z4, 45, n1, n2, 45, e1, e2]"
    and db: "is_digit z1" "is_digit z2" "is_digit z3" "is_digit z4" "is_digit n1" "is_digit n2"
      "is_digit e1" "is_digit e2"
    and y: "y = (100 * number2 z1 z2 + number2 z3 z4, number2 n1 n2, number2 e1 e2)"
    by auto
  note c1 = number2_less [OF da(1,2) db(1,2)]
  note c2 = number2_less [OF da(3,4) db(3,4)]
  note c3 = number2_less [OF da(5,6) db(5,6)]
  note c4 = number2_less [OF da(7,8) db(7,8)]
  have split: "[y1, y2] < [z1, z2]
      \<or> ([y1, y2] = [z1, z2] \<and> ([y3, y4] < [z3, z4]
      \<or> ([y3, y4] = [z3, z4] \<and> ([m1, m2] < [n1, n2]
      \<or> ([m1, m2] = [n1, n2] \<and> [d1, d2] < [e1, e2])))))"
    using assms(3) unfolding a b by (auto split: if_splits)
  have bound: "number2 y3 y4 < 100" "number2 z3 z4 < 100"
    using c2(3) number2_less(3) [OF db(3,4) db(3,4)] by auto
  from split show ?thesis
    unfolding x y date_less_def c1(1,2) c2(1,2) c3(1,2) c4(1,2)
    using bound by auto
qed

lemma collect_rates_none:
  assumes "\<forall>d\<in>set days. (\<exists>p. map_of rs d = Some (JObj p)) \<and> quoted rs target d = None"
  shows "collect_rates py rs target days rates = Inr rates"
  using assms
  by (induction days) (auto simp: quoted_def split: option.splits if_splits)

lemma collect_rates_error:
  "collect_rates py rs target days rates = Inl e \<Longrightarrow> e \<noteq> RequestException"
  by (induction days arbitrary: rates)
     (auto split: option.splits json.splits sum.splits if_splits dest: py_float_error)

lemma series_of_error: "series_of py data target = Inl e \<Longrightarrow> e \<noteq> RequestException"
  by (auto simp: series_of_def split: sum.splits if_splits json.splits
      dest: py_in_error py_getitem_error collect_rates_error)

lemma series_of_unquoted:
  assumes "\<forall>kvs rs d. data = JObj kvs \<and> map_of kvs (cps ''rates'') = Some (JObj rs)
             \<longrightarrow> quoted rs target d = None"
  shows "\<exists>e. series_of py data target = Inl e \<and> e \<noteq> RequestException"
proof (cases "series_of py data target")
  case (Inl e)
  then show ?thesis using series_of_error by blast
next
  case (Inr rates)
  from series_of_Inr [OF Inr] obtain kvs rs where
    data: "data = JObj kvs" "map_of kvs (cps ''rates'') = Some (JObj rs)"
    and loop: "collect_rates py rs target (sort (remdups (map fst rs))) [] = Inr rates"
    and ne: "rates \<noteq> []"
    by blast
  have "distinct (map fst ([] :: (pystr \<times> pyfloat) list) @ sort (remdups (map fst rs)))"
    by simp
  from collect_rates_result [OF loop this] have
    vals: "\<forall>d f. (d, f) \<in> set rates \<longrightarrow> (\<exists>v. quoted rs target d = Some v \<and> py_float py v = Inr f)"
    by auto
  from ne obtain d f where "(d, f) \<in> set rates" by (cases rates) auto
  with vals obtain v where "quoted rs target d = Some v" by blast
  with assms data show ?thesis by auto
qed

lemma fixture_start: "start_date (today_at_fetch fixture_world) 30 = Inr 739535"
  by (simp add: start_date_def fixture_world_def)

lemma fixture_iso:
  "isoformat fixture_python 739535 = cps ''2025-10-11''"
  "isoformat fixture_python (today_at_fetch fixture_world) = cps ''2025-11-10''"
  "isoformat fixture_python (today_at_check fixture_world) = cps ''2025-11-10''"
  by (simp_all add: fixture_python_def fixture_world_def)

lemma fixture_history:
  "http fixture_world (Timeseries (cps ''2025-10-11'') (cps ''2025-11-10'') (cps ''INR'') (cps ''USD''))
     = Body history_body"
  "http fixture_world (Timeseries (cps ''2025-10-11'') (cps ''2025-11-10'') (cps ''INR'') (cps ''GBP''))
     = Body history_body"
  by (simp_all add: fixture_world_def cps_def)

lemma fixture_series:
  "series_of fixture_python history_body (cps ''USD'')
     = Inr [(cps ''2025-11-07'', Fin 10), (cps ''2025-11-08'', Fin 20), (cps ''2025-11-10'', Fin 99)]"
  by (simp add: series_of_def history_body_def history_fields_def history_days_def cps_def
      float_of_int_def)

lemma fixture_timeseries:
  "fetch_timeseries fixture_python fixture_world [] (cps ''INR'') (cps ''USD'') 30
     = (Inr [(cps ''2025-11-07'', Fin 10), (cps ''2025-11-08'', Fin 20), (cps ''2025-11-10'', Fin 99)],
        [Timeseries (cps ''2025-10-11'') (cps ''2025-11-10'') (cps ''INR'') (cps ''USD'')])"
  by (simp add: fetch_timeseries_def fixture_start fixture_iso fixture_history fixture_series)

lemma fixture_no_gbp:
  "\<forall>d\<in>fst ` set history_days.
      (\<exists>p. map_of history_days d = Some (JObj p)) \<and> quoted history_days (cps ''GBP'') d = None"
  by (simp add: history_days_def quoted_def cps_def)

text \<open>
  Claim C6. Whenever \<open>fetch_timeseries\<close> returns a mapping, the response was a
  \<open>dict\<close> with a \<open>"rates"\<close> field, itself a \<open>dict\<close> of days, and: the keys of
  the mapping, in the order the mapping holds them, are strictly ascending as strings,
  hence in strictly ascending date order wherever they are dates \<open>YYYY-MM-DD\<close>; every
  value is \<open>float\<close> of what the payload of its day quotes for the requested target;
  a day whose payload does not quote the target is absent, and every day whose payload
  quotes it is present.
\<close>

theorem fetch_timeseries_sorted_filtered:
  assumes "fst (fetch_timeseries py w reqs base target days) = Inr rates"
  shows "\<exists>start kvs rs.
           start_date (today_at_fetch w) days = Inr start
           \<and> http w (Timeseries (isoformat py start) (isoformat py (today_at_fetch w)) base target)
               = Body (JObj kvs)
           \<and> map_of kvs (cps ''rates'') = Some (JObj rs)
           \<and> sorted_wrt (<) (map fst rates)
           \<and> sorted_wrt (\<lambda>a b. \<forall>x y. iso_date a = Some x \<and> iso_date b = Some y \<longrightarrow> date_less x y)
                 (map fst rates)
           \<and> (\<forall>d f. (d, f) \<in> set rates \<longrightarrow>
                 (\<exists>v. quoted rs target d = Some v \<and> py_float py v = Inr f))
           \<and> (\<forall>d. quoted rs target d = None \<longrightarrow> d \<notin> fst ` set rates)
           \<and> (\<forall>d. quoted rs target d \<noteq> None \<longrightarrow> d \<in> fst ` set rates)"
proof -
  from fetch_timeseries_Inr [OF assms] obtain start data where
    sd: "start_date (today_at_fetch w) days = Inr start"
    and resp: "http w (Timeseries (isoformat py start) (isoformat py (today_at_fetch w)) base target)
               = Body data"
    and ser: "series_of py data target = Inr rates"
    by blast
  from series_of_Inr [OF ser] obtain kvs rs where
    data: "data = JObj kvs" and rs: "map_of kvs (cps ''rates'') = Some (JObj rs)"
    and loop: "collect_rates py rs target (sort (remdups (map fst rs))) [] = Inr rates"
    by blast
  have "distinct (map fst ([] :: (pystr \<times> pyfloat) list) @ sort (remdups (map fst rs)))"
    by simp
  from collect_rates_result [OF loop this] have
    keys: "map fst rates = filter (\<lambda>d. quoted rs target d \<noteq> None) (sort (remdups (map fst rs)))"
    and vals: "\<forall>d f. (d, f) \<in> set rates \<longrightarrow> (\<exists>v. quoted rs target d = Some v \<and> py_float py v = Inr f)"
    by auto
  have srt: "sorted_wrt (<) (map fst rates)"
    unfolding keys by (rule sorted_wrt_filter) (rule sorted_days)
  have dates: "sorted_wrt (\<lambda>a b. \<forall>x y. iso_date a = Some x \<and> iso_date b = Some y \<longrightarrow> date_less x y)
                 (map fst rates)"
    using srt by (rule sorted_wrt_mono_rel [rotated]) (blast intro: iso_date_less)
  have keyset: "fst ` set rates = {d \<in> fst ` set rs. quoted rs target d \<noteq> None}"
  proof -
    have "fst ` set rates = set (map fst rates)" by simp
    also have "\<dots> = {d \<in> fst ` set rs. quoted rs target d \<noteq> None}"
      unfolding keys by auto
    finally show ?thesis .
  qed
  have dom: "\<And>d. quoted rs target d \<noteq> None \<Longrightarrow> d \<in> fst ` set rs"
    by (auto simp: quoted_def split: option.splits dest: map_of_SomeD intro: rev_image_eqI)
  show ?thesis
    using sd resp data rs srt dates vals keyset dom by (intro exI conjI) auto
qed

theorem fetch_timeseries_sorted_filtered_witness:
  "fst (fetch_timeseries fixture_python fixture_world [] (cps ''INR'') (cps ''USD'') 30)
     = Inr [(cps ''2025-11-07'', Fin 10), (cps ''2025-11-08'', Fin 20), (cps ''2025-11-10'', Fin 99)]
   \<and> sorted_wrt (<) (map fst [(cps ''2025-11-07'', Fin 10), (cps ''2025-11-08'', Fin 20),
                                (cps ''2025-11-10'', Fin (99::real))])
   \<and> cps ''2025-11-09'' \<notin> fst ` set [(cps ''2025-11-07'', Fin 10), (cps ''2025-11-08'', Fin 20),
                                (cps ''2025-11-10'', Fin (99::real))]"
proof -
  have run: "fst (fetch_timeseries fixture_python fixture_world [] (cps ''INR'') (cps ''USD'') 30)
     = Inr [(cps ''2025-11-07'', Fin 10), (cps ''2025-11-08'', Fin 20), (cps ''2025-11-10'', Fin 99)]"
    by (simp add: fixture_timeseries)
  from fetch_timeseries_sorted_filtered [OF run]
  have "sorted_wrt (<) (map fst [(cps ''2025-11-07'', Fin 10), (cps ''2025-11-08'', Fin 20),
                                (cps ''2025-11-10'', Fin (99::real))])"
    by blast
  then show ?thesis using run by (simp add: cps_def)
qed

text \<open>
  Claim C7. \<open>fetch_timeseries\<close> never returns an empty mapping. When the response
  has a \<open>"rates"\<close> field in which every day's payload is a \<open>dict\<close> that does not
  quote the requested target, so that nothing is left after filtering, it fails with the
  data error \<open>ValueError("No historical rates returned.")\<close>, after its one request.
  And whatever the shape of the response, when no day's payload quotes the target the
  call fails with an exception that is not a network error.
\<close>

theorem fetch_timeseries_empty_history:
  "fst (fetch_timeseries py w reqs base target days) \<noteq> Inr []
   \<and> (start_date (today_at_fetch w) days = Inr start
       \<and> http w (Timeseries (isoformat py start) (isoformat py (today_at_fetch w)) base target)
           = Body (JObj kvs)
       \<and> map_of kvs (cps ''rates'') = Some (JObj rs)
       \<and> (\<forall>d\<in>fst ` set rs. (\<exists>p. map_of rs d = Some (JObj p)) \<and> quoted rs target d = None)
      \<longrightarrow> fetch_timeseries py w reqs base target days
            = (Inl (ValueError NoHistoricalRates),
               reqs @ [Timeseries (isoformat py start) (isoformat py (today_at_fetch w)) base target]))
   \<and> (start_date (today_at_fetch w) days = Inr start
       \<and> http w (Timeseries (isoformat py start) (isoformat py (today_at_fetch w)) base target)
           = Body data
       \<and> (\<forall>kvs rs d. data = JObj kvs \<and> map_of kvs (cps ''rates'') = Some (JObj rs)
             \<longrightarrow> quoted rs target d = None)
      \<longrightarrow> (\<exists>e. fst (fetch_timeseries py w reqs base target days) = Inl e
                \<and> e \<noteq> RequestException))"
proof (intro conjI impI)
  show "fst (fetch_timeseries py w reqs base target days) \<noteq> Inr []"
  proof
    assume "fst (fetch_timeseries py w reqs base target days) = Inr []"
    from fetch_timeseries_Inr [OF this] obtain data where "series_of py data target = Inr []"
      by blast
    from series_of_Inr [OF this] show False by blast
  qed
next
  assume h: "start_date (today_at_fetch w) days = Inr start
       \<and> http w (Timeseries (isoformat py start) (isoformat py (today_at_fetch w)) base target)
           = Body (JObj kvs)
       \<and> map_of kvs (cps ''rates'') = Some (JObj rs)
       \<and> (\<forall>d\<in>fst ` set rs. (\<exists>p. map_of rs d = Some (JObj p)) \<and> quoted rs target d = None)"
  then have "\<forall>d\<in>set (sort (remdups (map fst rs))).
               (\<exists>p. map_of rs d = Some (JObj p)) \<and> quoted rs target d = None"
    by simp
  then have "collect_rates py rs target (sort (remdups (map fst rs))) [] = Inr []"
    by (rule collect_rates_none)
  with h have "series_of py (JObj kvs) target = Inl (ValueError NoHistoricalRates)"
    by (simp add: series_of_def)
  with h show "fetch_timeseries py w reqs base target days
            = (Inl (ValueError NoHistoricalRates),
               reqs @ [Timeseries (isoformat py start) (isoformat py (today_at_fetch w)) base target])"
    by (simp add: fetch_timeseries_def)
next
  assume h: "start_date (today_at_fetch w) days = Inr start
       \<and> http w (Timeseries (isoformat py start) (isoformat py (today_at_fetch w)) base target)
           = Body data
       \<and> (\<forall>kvs rs d. data = JObj kvs \<and> map_of kvs (cps ''rates'') = Some (JObj rs)
             \<longrightarrow> quoted rs target d = None)"
  then have "\<exists>e. series_of py data target = Inl e \<and> e \<noteq> RequestException"
    using series_of_unquoted [of data target py] by blast
  with h show "\<exists>e. fst (fetch_timeseries py w reqs base target days) = Inl e
                \<and> e \<noteq> RequestException"
    by (simp add: fetch_timeseries_def)
qed

theorem fetch_timeseries_empty_history_witness:
  "fetch_timeseries fixture_python fixture_world [] (cps ''INR'') (cps ''GBP'') 30
     = (Inl (ValueError NoHistoricalRates),
        [Timeseries (cps ''2025-10-11'') (cps ''2025-11-10'') (cps ''INR'') (cps ''GBP'')])"
proof -
  have h: "start_date (today_at_fetch fixture_world) 30 = Inr 739535
       \<and> http fixture_world (Timeseries (isoformat fixture_python 739535)
             (isoformat fixture_python (today_at_fetch fixture_world)) (cps ''INR'') (cps ''GBP''))
           = Body (JObj history_fields)
       \<and> map_of history_fields (cps ''rates'') = Some (JObj history_days)
       \<and> (\<forall>d\<in>fst ` set history_days.
             (\<exists>p. map_of history_days d = Some (JObj p))
             \<and> quoted history_days (cps ''GBP'') d = None)"
  proof (intro conjI)
    show "start_date (today_at_fetch fixture_world) 30 = Inr 739535" by (rule fixture_start)
    show "http fixture_world (Timeseries (isoformat fixture_python 739535)
             (isoformat fixture_python (today_at_fetch fixture_world)) (cps ''INR'') (cps ''GBP''))
           = Body (JObj history_fields)"
      by (simp add: fixture_iso fixture_history history_body_def)
    show "map_of history_fields (cps ''rates'') = Some (JObj history_days)"
      by (simp add: history_fields_def cps_def)
    show "\<forall>d\<in>fst ` set history_days.
             (\<exists>p. map_of history_days d = Some (JObj p))
             \<and> quoted history_days (cps ''GBP'') d = None"
      by (rule fixture_no_gbp)
  qed
  from fetch_timeseries_empty_history [of fixture_python fixture_world "[]" "cps ''INR''" "cps ''GBP''" 30 739535
          history_fields history_days, THEN conjunct2, THEN conjunct1, THEN mp, OF h]
  show ?thesis by (simp add: fixture_iso)
qed

section \<open>Properties of the pipeline\<close>

lemma foldl_fadd_exact:
  "exact_from f xs \<Longrightarrow> foldl fadd (Fin f) (map Fin xs) = Fin (f + sum_list xs)"
proof (induction xs arbitrary: f)
  case Nil
  then show ?case by simp
next
  case (Cons x xs)
  then have step: "round_double (f + x) = Fin (f + x)" and rest: "exact_from (f + x) xs"
    by (simp_all add: representable_def)
  from Cons.IH [OF rest] show ?case by (simp add: step add.assoc)
qed

lemma neumaier_exact:
  assumes "representable f" and "exact_from f xs"
  shows "neumaier (Fin f) (Fin 0) (map Fin xs) = Fin (f + sum_list xs)"
  using assms
proof (induction xs arbitrary: f)
  case Nil
  then show ?case by simp
next
  case (Cons x xs)
  then have rt: "representable (f + x)" and rest: "exact_from (f + x) xs"
    and rx: "round_double x = Fin x" and rf: "round_double f = Fin f"
    by (simp_all add: representable_def)
  have t: "round_double (f + x) = Fin (f + x)" using rt by (simp add: representable_def)
  have a: "fadd (fsub (Fin f) (Fin (f + x))) (Fin x) = Fin 0"
    by (simp add: fsub_def round_double_minus rx)
  have b: "fadd (fsub (Fin x) (Fin (f + x))) (Fin f) = Fin 0"
    by (simp add: fsub_def round_double_minus rf)
  have "neumaier (Fin (f + x)) (Fin 0) (map Fin xs) = Fin (f + x + sum_list xs)"
    by (rule Cons.IH [OF rt rest])
  then show ?case
    using a b by (simp add: t Let_def add.assoc del: fadd.simps) (simp add: t)
qed

lemma py_sum_exact:
  assumes "exact_sums xs"
  shows "py_sum py (map Fin xs) = Fin (sum_list xs)"
proof (cases xs)
  case Nil
  then show ?thesis by simp
next
  case (Cons x ys)
  with assms have rx: "representable x" and rest: "exact_from x ys"
    by (simp_all add: exact_sums_def)
  from rx have first: "round_double x = Fin x"
    by (simp add: representable_def)
  show ?thesis
    using neumaier_exact [OF rx rest] foldl_fadd_exact [OF rest]
    by (simp add: Cons first)
qed

lemma float_mean_exact:
  assumes "vs \<noteq> []" and "exact_sums vs" and "representable (mean vs)"
    and "length vs < 2 ^ 53"
  shows "float_mean py (map Fin vs) = Inr (Fin (mean vs))"
proof -
  have "\<bar>int (length vs)\<bar> < 2 ^ 53" using assms(4) by simp
  then have n: "float_of_int (int (length vs)) = Inr (Fin (real (length vs)))"
    by (simp add: float_of_int_small)
  have "real (length vs) \<noteq> 0" using assms(1) by simp
  then show ?thesis
    using assms(3)
    by (simp add: float_mean_def n py_sum_exact [OF assms(2)] mean_def representable_def)
qed

lemma period_average_float_mean:
  assumes "rates \<noteq> []"
  shows "period_average py today rates =
           float_mean py (if fst (last rates) = today \<and> 1 < length rates
                          then butlast (map snd rates) else map snd rates)"
proof (cases "fst (last rates) = today \<and> 1 < length rates")
  case True
  then have len: "int (length (map snd rates)) - 1 = int (length (butlast (map snd rates)))"
    by simp
  from True have "period_average py today rates =
      (case float_of_int (int (length (map snd rates)) - 1) of
         Inl e \<Rightarrow> Inl e
       | Inr n \<Rightarrow> fdiv (py_sum py (take (length (map snd rates) - 1) (map snd rates))) n)"
    using assms by (simp add: period_average_def Let_def last_map)
  also have "\<dots> = float_mean py (butlast (map snd rates))"
    unfolding float_mean_def len butlast_conv_take [symmetric] ..
  finally show ?thesis using True by simp
next
  case False
  then have "period_average py today rates =
      (case float_of_int (int (length (map snd rates))) of
         Inl e \<Rightarrow> Inl e
       | Inr n \<Rightarrow> fdiv (py_sum py (map snd rates)) n)"
    using assms by (auto simp add: period_average_def Let_def last_map)
  also have "\<dots> = float_mean py (map snd rates)"
    by (simp add: float_mean_def)
  finally show ?thesis using False by auto
qed

lemma period_average_exact:
  assumes "rates \<noteq> []" and "map snd rates = map Fin rs"
    and "exact_sums (if fst (last rates) = today \<and> 1 < length rates then butlast rs else rs)"
    and "representable (mean (if fst (last rates) = today \<and> 1 < length rates
                              then butlast rs else rs))"
    and "length rates < 2 ^ 53"
  shows "period_average py today rates =
           Inr (Fin (mean (if fst (last rates) = today \<and> 1 < length rates
                           then butlast rs else rs)))"
proof -
  have len: "length rs = length rates"
    using assms(2) by (metis length_map)
  with assms(1) have ne: "rs \<noteq> []" by auto
  show ?thesis
  proof (cases "fst (last rates) = today \<and> 1 < length rates")
    case True
    then have ne': "butlast rs \<noteq> []" using len by (cases rs rule: rev_cases) auto
    have l: "length (butlast rs) < 2 ^ 53" using assms(5) len by simp
    from float_mean_exact [OF ne' _ _ l, of py] assms(3,4) True
    have "float_mean py (map Fin (butlast rs)) = Inr (Fin (mean (butlast rs)))" by simp
    then show ?thesis
      using True assms(2) period_average_float_mean [OF assms(1), of py today]
      by (simp add: map_butlast)
  next
    case False
    have l: "length rs < 2 ^ 53" using assms(5) len by simp
    from float_mean_exact [OF ne _ _ l, of py] assms(3,4) False
    have "float_mean py (map Fin rs) = Inr (Fin (mean rs))" by auto
    then show ?thesis
      using False assms(2) period_average_float_mean [OF assms(1), of py today]
      by auto
  qed
qed

lemma period_average_overflow:
  assumes a: "round_double a = Fin a" and aa: "round_double (2 * a) = PInf" and d: "d3 \<noteq> d2"
  shows "period_average py d3 [(d1, Fin a), (d2, Fin a), (d3, v)] = Inr PInf"
proof -
  have s: "py_sum py [Fin a, Fin a] = PInf"
    by (simp add: a aa Let_def fsub_def)
  have n: "float_of_int 2 = Inr (Fin 2)"
    by (simp add: float_of_int_def)
  show ?thesis
    using d by (simp add: period_average_def Let_def s n del: py_sum.simps)
qed

lemma fixture_overflow:
  "period_average fixture_python (cps ''2025-11-10'') overflowing_series = Inr PInf"
proof -
  have a: "round_double (2 ^ 1023) = Fin (2 ^ 1023)"
    by (rule round_double_pow2) simp
  have "2 * (2::real) ^ 1023 = 2 ^ 1024" by simp
  moreover have "round_double (2 ^ 1024) = PInf"
    by (rule round_double_pow2_overflow) simp
  ultimately have aa: "round_double (2 * 2 ^ 1023) = PInf" by (simp only:)
  have d: "cps ''2025-11-10'' \<noteq> cps ''2025-11-08''" by (simp add: cps_def)
  show ?thesis
    unfolding overflowing_series_def by (rule period_average_overflow [OF a aa d])
qed

lemma normalize_ccy_error: "normalize_ccy u s = Inl e \<Longrightarrow> e = ValueError (InvalidCurrencyCode s)"
  by (auto simp: normalize_ccy_def Let_def split: if_splits)

lemma parse_inputs_error: "parse_inputs py st = Inl e \<Longrightarrow> \<exists>m. e = ValueError m"
  by (auto simp: parse_inputs_def Let_def split: option.splits sum.splits if_splits
      dest: normalize_ccy_error)

lemma parse_inputs_Inl_iff:
  "(\<exists>e. parse_inputs py st = Inl e) \<longleftrightarrow>
     (float_of_str py (amount_var st) = None
      \<or> isl (normalize_ccy (unicode_db py) (base_var st))
      \<or> isl (normalize_ccy (unicode_db py) (target_var st))
      \<or> (py_strip (unicode_db py) (days_var st) \<noteq> []
          \<and> (case int_of_str py (py_strip (unicode_db py) (days_var st)) of
                None \<Rightarrow> True | Some d \<Rightarrow> d < 1)))"
  by (auto simp: parse_inputs_def Let_def split: option.splits sum.splits if_splits)

lemma try_convert_invalid: "parse_inputs py st = Inl e \<Longrightarrow> try_convert py w st = (Some e, st)"
  by (simp add: try_convert_def)

lemma on_convert_invalid:
  assumes "parse_inputs py st = Inl e"
  shows "on_convert py w st = st\<lparr>dialogs := dialogs st @ [ErrorDialog e]\<rparr>"
  using assms parse_inputs_error [OF assms]
  by (auto simp: on_convert_def try_convert_invalid)

lemma fixture_no_days_invalid:
  "py_strip (unicode_db fixture_python) (days_var fixture_no_days) = cps ''0''"
  "int_of_str fixture_python (cps ''0'') = Some 0"
  by (simp_all add: fixture_python_def fixture_no_days_def latin1_only_def py_strip_def cps_def
      cp_isspace_def latin1_isspace_def)

lemma output_write_line: "output_box (write_line text st) = output_box st @ text @ [10]"
  by (simp add: write_line_def)

lemma output_write_conversion:
  "output_box (write_conversion py amount base target converted today_rate (clear_output st)) =
     replicate 50 45 @ [10]
     @ cps ''Amount       : '' @ format_float py 4 amount @ [32] @ base @ [10]
     @ cps ''Current rate : 1 '' @ base @ cps '' = '' @ format_float py 6 today_rate @ [32] @ target @ [10]
     @ cps ''Converted    : '' @ format_float py 4 converted @ [32] @ target @ [10]
     @ replicate 50 45 @ [10]"
  by (simp add: write_conversion_def output_write_line clear_output_def)

lemma write_conversion_other:
  "sent (write_conversion py amount base target converted today_rate st) = sent st"
  "dialogs (write_conversion py amount base target converted today_rate st) = dialogs st"
  by (simp_all add: write_conversion_def write_line_def)

lemma try_convert_first_fetch_fails:
  assumes "parse_inputs py st = Inr (amount, base, target, days)"
    and "fst (fetch_conversion py w (sent st) amount base target) = Inl e"
  shows "output_box (snd (try_convert py w st)) = output_box st"
    and "fst (try_convert py w st) = Some e"
  using assms by (auto simp: try_convert_def split: prod.splits sum.splits)

lemma try_convert_second_fetch_fails:
  assumes "parse_inputs py st = Inr (amount, base, target, days)"
    and "fetch_conversion py w (sent st) amount base target = (Inr (converted, today_rate), reqs)"
    and "fst (fetch_timeseries py w reqs base target days) = Inl e"
  shows "output_box (snd (try_convert py w st))
           = output_box (write_conversion py amount base target converted today_rate (clear_output st))"
    and "fst (try_convert py w st) = Some e"
  using assms
  by (auto simp: try_convert_def Let_def write_conversion_other clear_output_def
      write_conversion_def write_line_def split: prod.splits sum.splits)

lemma output_on_convert: "output_box (on_convert py w st) = output_box (snd (try_convert py w st))"
  by (auto simp: on_convert_def split: prod.splits option.splits)

lemma fixture_same_currency_parse:
  "parse_inputs fixture_python fixture_same_currency = Inr (Fin 100, cps ''USD'', cps ''USD'', 30)"
  by (simp add: parse_inputs_def fixture_python_def fixture_same_currency_def latin1_only_def
      normalize_ccy_def py_upper_def py_strip_def py_isalpha_def cp_isspace_def cp_isalpha_def
      cp_upper_def latin1_isspace_def latin1_isalpha_def latin1_upper_def cps_def)

lemma fixture_same_currency_conversion:
  "fetch_conversion fixture_python fixture_world (sent fixture_same_currency) (Fin 100)
      (cps ''USD'') (cps ''USD'') = (Inr (Fin 100, Fin 1), [])"
  by (simp add: fetch_conversion_def fixture_same_currency_def)

lemma fixture_same_currency_history:
  "fetch_timeseries fixture_python fixture_world [] (cps ''USD'') (cps ''USD'') 30
     = (Inl RequestException,
        [Timeseries (cps ''2025-10-11'') (cps ''2025-11-10'') (cps ''USD'') (cps ''USD'')])"
  by (simp add: fetch_timeseries_def fixture_start fixture_iso)
     (simp add: fixture_world_def cps_def)

text \<open>
  A run that succeeds shows the three charts, and the average in the second is the one
  \<open>period_average\<close> computes from the series that \<open>fetch_timeseries\<close> returned and
  from today's date.
\<close>

lemma try_convert_success:
  assumes "try_convert py w st = (None, st')"
  shows "\<exists>amount base target days converted today_rate reqs rates avg_rate.
           parse_inputs py st = Inr (amount, base, target, days)
           \<and> fetch_conversion py w (sent st) amount base target = (Inr (converted, today_rate), reqs)
           \<and> fst (fetch_timeseries py w reqs base target days) = Inr rates
           \<and> period_average py (isoformat py (today_at_check w)) rates = Inr avg_rate
           \<and> charts st' = charts st @
                [RateHistory rates base target,
                 TodayVsAvg today_rate avg_rate base target,
                 AmountComparison amount converted base target]"
  using assms
  by (auto simp: try_convert_def Let_def write_conversion_def write_average_def write_line_def
      clear_output_def plot_rate_history_def plot_today_vs_avg_def plot_amount_comparison_def
      split: sum.splits prod.splits if_splits)

text \<open>
  The run of the concrete window: 100 are converted to 200 at the rate 2, the average of
  the window leaves out today's 99 and is 15, and the three charts are shown.
\<close>

lemma fixture_app_parse:
  "parse_inputs fixture_python fixture_app = Inr (Fin 100, cps ''INR'', cps ''USD'', 30)"
  by (simp add: parse_inputs_def fixture_python_def fixture_app_def latin1_only_def
      normalize_ccy_def py_upper_def py_strip_def py_isalpha_def cp_isspace_def cp_isalpha_def
      cp_upper_def latin1_isspace_def latin1_isalpha_def latin1_upper_def cps_def)

lemma fixture_app_conversion:
  "fetch_conversion fixture_python fixture_world [] (Fin 100) (cps ''INR'') (cps ''USD'')
     = (Inr (Fin 200, Fin 2), [Latest (Fin 100) (cps ''INR'') (cps ''USD'')])"
  by (simp add: fetch_conversion_def fixture_world_def rates_body_def conversion_of_def
        cps_def fne_def feq_def)

lemma fixture_app_history:
  "fetch_timeseries fixture_python fixture_world [Latest (Fin 100) (cps ''INR'') (cps ''USD'')]
      (cps ''INR'') (cps ''USD'') 30
     = (Inr [(cps ''2025-11-07'', Fin 10), (cps ''2025-11-08'', Fin 20), (cps ''2025-11-10'', Fin 99)],
        [Latest (Fin 100) (cps ''INR'') (cps ''USD''),
         Timeseries (cps ''2025-10-11'') (cps ''2025-11-10'') (cps ''INR'') (cps ''USD'')])"
  by (simp add: fetch_timeseries_def fixture_start fixture_iso fixture_history fixture_series)

lemma fixture_app_average:
  "period_average fixture_python (cps ''2025-11-10'')
      [(cps ''2025-11-07'', Fin 10), (cps ''2025-11-08'', Fin 20), (cps ''2025-11-10'', Fin 99)]
     = Inr (Fin 15)"
  using period_average_exact [of
      "[(cps ''2025-11-07'', Fin 10), (cps ''2025-11-08'', Fin 20), (cps ''2025-11-10'', Fin 99)]"
      "[10, 20, 99]" "cps ''2025-11-10''" fixture_python]
  by (simp add: exact_sums_def representable_def mean_def)

lemma fixture_app_plot:
  "plot_rate_history fixture_python
      [(cps ''2025-11-07'', Fin 10), (cps ''2025-11-08'', Fin 20), (cps ''2025-11-10'', Fin 99)]
      (cps ''INR'') (cps ''USD'')
     = Inr (RateHistory
        [(cps ''2025-11-07'', Fin 10), (cps ''2025-11-08'', Fin 20), (cps ''2025-11-10'', Fin 99)]
        (cps ''INR'') (cps ''USD''))"
  by (simp add: plot_rate_history_def fixture_python_def)

lemma pipeline_example:
  "on_convert fixture_python fixture_world fixture_app =
     fixture_app
       \<lparr>output_box :=
          replicate 50 45 @ [10]
          @ cps ''Amount       : 100.0000 INR'' @ [10]
          @ cps ''Current rate : 1 INR = 2.000000 USD'' @ [10]
          @ cps ''Converted    : 200.0000 USD'' @ [10]
          @ replicate 50 45 @ [10]
          @ cps ''Avg rate (30d window): 15.000000 USD/INR'' @ [10]
          @ cps ''Close the charts to continue...'' @ [10],
        charts :=
          [RateHistory [(cps ''2025-11-07'', Fin 10), (cps ''2025-11-08'', Fin 20),
                        (cps ''2025-11-10'', Fin 99)] (cps ''INR'') (cps ''USD''),
           TodayVsAvg (Fin 2) (Fin 15) (cps ''INR'') (cps ''USD''),
           AmountComparison (Fin 100) (Fin 200) (cps ''INR'') (cps ''USD'')],
        sent :=
          [Latest (Fin 100) (cps ''INR'') (cps ''USD''),
           Timeseries (cps ''2025-10-11'') (cps ''2025-11-10'') (cps ''INR'') (cps ''USD'')]\<rparr>"
proof -
  have s0: "sent fixture_app = []" by (simp add: fixture_app_def)
  have "try_convert fixture_python fixture_world fixture_app =
     (None, fixture_app
       \<lparr>output_box :=
          replicate 50 45 @ [10]
          @ cps ''Amount       : 100.0000 INR'' @ [10]
          @ cps ''Current rate : 1 INR = 2.000000 USD'' @ [10]
          @ cps ''Converted    : 200.0000 USD'' @ [10]
          @ replicate 50 45 @ [10]
          @ cps ''Avg rate (30d window): 15.000000 USD/INR'' @ [10]
          @ cps ''Close the charts to continue...'' @ [10],
        charts :=
          [RateHistory [(cps ''2025-11-07'', Fin 10), (cps ''2025-11-08'', Fin 20),
                        (cps ''2025-11-10'', Fin 99)] (cps ''INR'') (cps ''USD''),
           TodayVsAvg (Fin 2) (Fin 15) (cps ''INR'') (cps ''USD''),
           AmountComparison (Fin 100) (Fin 200) (cps ''INR'') (cps ''USD'')],
        sent :=
          [Latest (Fin 100) (cps ''INR'') (cps ''USD''),
           Timeseries (cps ''2025-10-11'') (cps ''2025-11-10'') (cps ''INR'') (cps ''USD'')]\<rparr>)"
    unfolding try_convert_def fixture_app_parse s0
    by (simp add: fixture_app_conversion write_conversion_def write_line_def clear_output_def
        fixture_app_history fixture_iso fixture_app_average fixture_app_plot write_average_def
        plot_today_vs_avg_def plot_amount_comparison_def)
       (simp add: fixture_app_def fixture_python_def cps_def)
  then show ?thesis by (simp add: on_convert_def)
qed


text \<open>
  Claim C1, as stated, fails: for the series whose first two values are the double
  \<open>2 ^ 1023\<close> and whose last day is today, the arithmetic mean of all values except
  the last is \<open>2 ^ 1023\<close>, but the sum of the two overflows and the average computed
  is infinite.
\<close>

theorem period_average_mean_counterexample:
  "period_average fixture_python (cps ''2025-11-10'') overflowing_series = Inr PInf
   \<and> map snd overflowing_series = [Fin (2 ^ 1023), Fin (2 ^ 1023), Fin 5]
   \<and> fst (last overflowing_series) = cps ''2025-11-10''
   \<and> representable (2 ^ 1023)
   \<and> mean [2 ^ 1023, 2 ^ 1023] = 2 ^ 1023
   \<and> period_average fixture_python (cps ''2025-11-10'') overflowing_series
       \<noteq> Inr (Fin (mean [2 ^ 1023, 2 ^ 1023]))"
proof -
  have r: "representable (2 ^ 1023)"
    unfolding representable_def by (rule round_double_pow2) simp
  have m: "mean [2 ^ 1023, 2 ^ 1023] = 2 ^ 1023"
    by (simp add: mean_def)
  show ?thesis
    using r m by (simp add: fixture_overflow) (simp add: overflowing_series_def)
qed

text \<open>
  Claim C1, amended. For every non-empty series, as \<open>fetch_timeseries\<close> produces them,
  the average that \<open>on_convert\<close> computes is \<open>sum(vs) / len(vs)\<close> in float
  arithmetic, \<open>vs\<close> being all values except the last when the last date is today's date
  and the series has more than one entry, and all values otherwise. It is the arithmetic
  mean of \<open>vs\<close> whenever the values are finite, no addition of the sum rounds and the
  mean is a double (the series having fewer than \<open>2 ^ 53\<close> entries), as in the two
  examples of the specification.
\<close>

theorem period_average_mean:
  assumes "rates \<noteq> []"
  shows "period_average py today rates =
           float_mean py (if fst (last rates) = today \<and> 1 < length rates
                          then butlast (map snd rates) else map snd rates)
       \<and> (\<forall>rs. map snd rates = map Fin rs
               \<and> exact_sums (if fst (last rates) = today \<and> 1 < length rates
                              then butlast rs else rs)
               \<and> representable (mean (if fst (last rates) = today \<and> 1 < length rates
                                       then butlast rs else rs))
               \<and> length rates < 2 ^ 53
             \<longrightarrow> period_average py today rates =
                   Inr (Fin (mean (if fst (last rates) = today \<and> 1 < length rates
                                   then butlast rs else rs))))"
proof (intro conjI allI impI)
  show "period_average py today rates =
           float_mean py (if fst (last rates) = today \<and> 1 < length rates
                          then butlast (map snd rates) else map snd rates)"
    using assms by (rule period_average_float_mean)
next
  fix rs
  assume h: "map snd rates = map Fin rs
               \<and> exact_sums (if fst (last rates) = today \<and> 1 < length rates
                              then butlast rs else rs)
               \<and> representable (mean (if fst (last rates) = today \<and> 1 < length rates
                                       then butlast rs else rs))
               \<and> length rates < 2 ^ 53"
  then have vals: "map snd rates = map Fin rs"
    and sums: "exact_sums (if fst (last rates) = today \<and> 1 < length rates
                           then butlast rs else rs)"
    and quotient: "representable (mean (if fst (last rates) = today \<and> 1 < length rates
                                         then butlast rs else rs))"
    and len: "length rates < 2 ^ 53"
    by blast+
  show "period_average py today rates =
          Inr (Fin (mean (if fst (last rates) = today \<and> 1 < length rates
                          then butlast rs else rs)))"
    using assms vals sums quotient len by (rule period_average_exact)
qed

theorem period_average_mean_witness:
  "period_average fixture_python (cps ''2025-11-10'')
       [(cps ''2025-11-07'', Fin 10), (cps ''2025-11-08'', Fin 20), (cps ''2025-11-10'', Fin 99)]
     = Inr (Fin 15)
   \<and> period_average fixture_python (cps ''2025-11-10'')
       [(cps ''2025-11-07'', Fin 10), (cps ''2025-11-08'', Fin 20)]
     = Inr (Fin 15)"
proof -
  have a: "period_average fixture_python (cps ''2025-11-10'')
       [(cps ''2025-11-07'', Fin 10), (cps ''2025-11-08'', Fin 20), (cps ''2025-11-10'', Fin 99)]
     = Inr (Fin 15)"
    using period_average_mean [of
        "[(cps ''2025-11-07'', Fin 10), (cps ''2025-11-08'', Fin 20), (cps ''2025-11-10'', Fin 99)]"
        fixture_python "cps ''2025-11-10''", THEN conjunct2, rule_format, of "[10, 20, 99]"]
    by (simp add: exact_sums_def representable_def mean_def)
  have b: "period_average fixture_python (cps ''2025-11-10'')
       [(cps ''2025-11-07'', Fin 10), (cps ''2025-11-08'', Fin 20)]
     = Inr (Fin 15)"
    using period_average_mean [of
        "[(cps ''2025-11-07'', Fin 10), (cps ''2025-11-08'', Fin 20)]"
        fixture_python "cps ''2025-11-10''", THEN conjunct2, rule_format, of "[10, 20]"]
    by (simp add: exact_sums_def representable_def mean_def cps_def)
  show ?thesis using a b by simp
qed

text \<open>
  Claim C8. Whenever a validation step fails (the amount is not numeric, the base or the
  target code is invalid, or the days are given and are not an integer or are less
  than 1), \<open>on_convert\<close> sends no request: the log of requests is unchanged, and all
  that changes is that an error dialog with the \<open>ValueError\<close> is shown.
\<close>

theorem validation_before_network:
  assumes "float_of_str py (amount_var st) = None
      \<or> isl (normalize_ccy (unicode_db py) (base_var st))
      \<or> isl (normalize_ccy (unicode_db py) (target_var st))
      \<or> (py_strip (unicode_db py) (days_var st) \<noteq> []
          \<and> (case int_of_str py (py_strip (unicode_db py) (days_var st)) of
                None \<Rightarrow> True | Some d \<Rightarrow> d < 1))"
  shows "sent (on_convert py w st) = sent st
       \<and> (\<exists>m. on_convert py w st = st\<lparr>dialogs := dialogs st @ [ErrorDialog (ValueError m)]\<rparr>)"
proof -
  from assms obtain e where e: "parse_inputs py st = Inl e"
    using parse_inputs_Inl_iff [of py st] by blast
  from parse_inputs_error [OF e] obtain m where "e = ValueError m" by blast
  with on_convert_invalid [OF e, of w] show ?thesis by auto
qed

theorem validation_before_network_witness:
  "sent (on_convert fixture_python fixture_world fixture_no_days) = sent fixture_no_days
   \<and> sent fixture_no_days = []"
proof -
  have "py_strip (unicode_db fixture_python) (days_var fixture_no_days) \<noteq> []
          \<and> (case int_of_str fixture_python (py_strip (unicode_db fixture_python) (days_var fixture_no_days)) of
                None \<Rightarrow> True | Some d \<Rightarrow> d < 1)"
    by (simp add: fixture_no_days_invalid) (simp add: cps_def)
  then have "sent (on_convert fixture_python fixture_world fixture_no_days) = sent fixture_no_days"
    using validation_before_network [of fixture_python fixture_no_days fixture_world] by blast
  then show ?thesis by (simp add: fixture_no_days_def)
qed

text \<open>
  Claim C3, as stated, fails: converting 100 USD to USD, the first fetch succeeds
  (without a request), the history request fails with a network error, and the output
  box, which held a previous output, then holds the five lines of the conversion.
\<close>

theorem output_untouched_counterexample:
  "fst (try_convert fixture_python fixture_world fixture_same_currency) = Some RequestException
   \<and> output_box fixture_same_currency = cps ''previous output'' @ [10]
   \<and> output_box (on_convert fixture_python fixture_world fixture_same_currency)
       = replicate 50 45 @ [10]
         @ cps ''Amount       : 100.0000 USD'' @ [10]
         @ cps ''Current rate : 1 USD = 1.000000 USD'' @ [10]
         @ cps ''Converted    : 100.0000 USD'' @ [10]
         @ replicate 50 45 @ [10]
   \<and> output_box (on_convert fixture_python fixture_world fixture_same_currency)
       \<noteq> output_box fixture_same_currency"
proof -
  have f: "fst (fetch_timeseries fixture_python fixture_world [] (cps ''USD'') (cps ''USD'') 30)
             = Inl RequestException"
    by (simp add: fixture_same_currency_history)
  note r = try_convert_second_fetch_fails [OF fixture_same_currency_parse
      fixture_same_currency_conversion f]
  have o: "output_box (on_convert fixture_python fixture_world fixture_same_currency)
       = replicate 50 45 @ [10]
         @ cps ''Amount       : 100.0000 USD'' @ [10]
         @ cps ''Current rate : 1 USD = 1.000000 USD'' @ [10]
         @ cps ''Converted    : 100.0000 USD'' @ [10]
         @ replicate 50 45 @ [10]"
    unfolding output_on_convert r(1) output_write_conversion
    by (simp add: fixture_python_def cps_def)
  have p: "output_box fixture_same_currency = cps ''previous output'' @ [10]"
    by (simp add: fixture_same_currency_def)
  have "output_box (on_convert fixture_python fixture_world fixture_same_currency)
       \<noteq> output_box fixture_same_currency"
    unfolding o p by (simp add: cps_def)
  with r(2) o p show ?thesis by simp
qed

text \<open>
  Claim C3, amended. A run that fails in validation or in \<open>fetch_conversion\<close> leaves
  the output box exactly as it was. A run that fails in \<open>fetch_timeseries\<close> leaves the
  box cleared and rewritten with the five lines of the conversion: a rule, the amount,
  the current rate, the converted amount, a rule.
\<close>

theorem output_on_failure:
  "(parse_inputs py st = Inl e \<longrightarrow> output_box (on_convert py w st) = output_box st)
   \<and> (parse_inputs py st = Inr (amount, base, target, days)
        \<and> fst (fetch_conversion py w (sent st) amount base target) = Inl e
      \<longrightarrow> output_box (on_convert py w st) = output_box st)
   \<and> (parse_inputs py st = Inr (amount, base, target, days)
        \<and> fetch_conversion py w (sent st) amount base target = (Inr (converted, today_rate), reqs)
        \<and> fst (fetch_timeseries py w reqs base target days) = Inl e
      \<longrightarrow> output_box (on_convert py w st) =
            replicate 50 45 @ [10]
            @ cps ''Amount       : '' @ format_float py 4 amount @ [32] @ base @ [10]
            @ cps ''Current rate : 1 '' @ base @ cps '' = '' @ format_float py 6 today_rate
              @ [32] @ target @ [10]
            @ cps ''Converted    : '' @ format_float py 4 converted @ [32] @ target @ [10]
            @ replicate 50 45 @ [10])"
proof (intro conjI impI)
  assume "parse_inputs py st = Inl e"
  then show "output_box (on_convert py w st) = output_box st"
    by (simp add: output_on_convert try_convert_invalid)
next
  assume "parse_inputs py st = Inr (amount, base, target, days)
        \<and> fst (fetch_conversion py w (sent st) amount base target) = Inl e"
  then show "output_box (on_convert py w st) = output_box st"
    using try_convert_first_fetch_fails(1) [of py st amount base target days w e]
    by (simp add: output_on_convert)
next
  assume "parse_inputs py st = Inr (amount, base, target, days)
        \<and> fetch_conversion py w (sent st) amount base target = (Inr (converted, today_rate), reqs)
        \<and> fst (fetch_timeseries py w reqs base target days) = Inl e"
  then have "output_box (on_convert py w st)
      = output_box (write_conversion py amount base target converted today_rate (clear_output st))"
    using try_convert_second_fetch_fails(1) [of py st amount base target days w converted today_rate reqs e]
    by (simp add: output_on_convert)
  then show "output_box (on_convert py w st) =
            replicate 50 45 @ [10]
            @ cps ''Amount       : '' @ format_float py 4 amount @ [32] @ base @ [10]
            @ cps ''Current rate : 1 '' @ base @ cps '' = '' @ format_float py 6 today_rate
              @ [32] @ target @ [10]
            @ cps ''Converted    : '' @ format_float py 4 converted @ [32] @ target @ [10]
            @ replicate 50 45 @ [10]"
    by (simp only: output_write_conversion)
qed

theorem output_on_failure_witness:
  "output_box (on_convert fixture_python fixture_world fixture_same_currency)
       = replicate 50 45 @ [10]
         @ cps ''Amount       : '' @ format_float fixture_python 4 (Fin 100) @ [32] @ cps ''USD'' @ [10]
         @ cps ''Current rate : 1 '' @ cps ''USD'' @ cps '' = '' @ format_float fixture_python 6 (Fin 1)
           @ [32] @ cps ''USD'' @ [10]
         @ cps ''Converted    : '' @ format_float fixture_python 4 (Fin 100) @ [32] @ cps ''USD'' @ [10]
         @ replicate 50 45 @ [10]
   \<and> output_box (on_convert fixture_python fixture_world fixture_no_days) = output_box fixture_no_days"
proof -
  have f: "fst (fetch_timeseries fixture_python fixture_world [] (cps ''USD'') (cps ''USD'') 30)
             = Inl RequestException"
    by (simp add: fixture_same_currency_history)
  have inv: "parse_inputs fixture_python fixture_no_days = Inl (ValueError HistoryDaysTooSmall)"
    by (simp add: parse_inputs_def fixture_python_def fixture_no_days_def latin1_only_def
      normalize_ccy_def py_upper_def py_strip_def py_isalpha_def cp_isspace_def cp_isalpha_def
      cp_upper_def latin1_isspace_def latin1_isalpha_def latin1_upper_def cps_def)
  note t = output_on_failure [of fixture_python fixture_same_currency "RequestException" fixture_world
      "Fin 100" "cps ''USD''" "cps ''USD''" 30 "Fin 100" "Fin 1" "[]"]
  note u = output_on_failure [of fixture_python fixture_no_days "ValueError HistoryDaysTooSmall" fixture_world]
  from t fixture_same_currency_parse fixture_same_currency_conversion f u inv
  show ?thesis by blast
qed

end
